theory Spec2Isabelle
  imports Main "HOL-Library.Word" "HOL-Library.Multiset"
begin

section \<open>The social graph pipeline of \<^verbatim>\<open>server/pipeline_friend.go\<close>\<close>

text \<open>
  The handlers of \<^verbatim>\<open>pipeline_friend.go\<close> talk to a relational store through
  \<^verbatim>\<open>database/sql\<close>, to the client through \<^verbatim>\<open>session.Send\<close> and to a logger.
  The embedding makes each of these explicit:
  \<^item> a table is the list of its rows, in the order the store holds them; \<^verbatim>\<open>INSERT\<close>
    appends, \<^verbatim>\<open>DELETE\<close> filters, \<^verbatim>\<open>UPDATE\<close> maps, and the rows affected are counted;
  \<^item> a transaction works on a copy of the tables, which \<^verbatim>\<open>Commit\<close> installs and
    \<^verbatim>\<open>Rollback\<close> drops;
  \<^item> every call that can fail in the source (\<^verbatim>\<open>Begin\<close>, \<^verbatim>\<open>Exec\<close>, \<^verbatim>\<open>Query\<close>,
    \<^verbatim>\<open>Scan\<close>, \<^verbatim>\<open>Commit\<close>, \<^verbatim>\<open>Rollback\<close>, the social client, the notification
    service) fails when the environment says so;
  \<^item> a handler returns the backend it leaves behind and the responses it sent, and says
    whether it returned or panicked.
\<close>

subsection \<open>Identifiers, rows and tables\<close>

type_synonym byte = "8 word"
type_synonym bytes = "byte list"

text \<open>\<^verbatim>\<open>users\<close>: the columns the queries of this file read.\<close>

record users_row =
  users_id :: bytes
  users_handle :: "string option"
  users_fullname :: "string option"
  users_avatar_url :: "string option"
  users_lang :: "string option"
  users_location :: "string option"
  users_timezone :: "string option"
  users_metadata :: bytes
  users_created_at :: "int option"
  users_updated_at :: "int option"
  users_last_online_at :: "int option"
  users_facebook_id :: "string option"

text \<open>\<^verbatim>\<open>user_edge (source_id, position, updated_at, destination_id, state)\<close>.\<close>

record user_edge_row =
  source_id :: bytes
  position :: int
  edge_updated_at :: int
  destination_id :: bytes
  state :: "int option"

text \<open>\<^verbatim>\<open>user_edge_metadata (source_id, count, updated_at)\<close>.\<close>

record user_edge_metadata_row =
  md_source_id :: bytes
  md_count :: int
  md_updated_at :: int

record store =
  users :: "users_row list"
  user_edge :: "user_edge_row list"
  user_edge_metadata :: "user_edge_metadata_row list"

text \<open>The state codes the statements of this file write: \<^verbatim>\<open>0\<close> and \<^verbatim>\<open>3\<close>.\<close>

definition CONNECTED :: int where
  "CONNECTED = 0"

definition BLOCKED :: int where
  "BLOCKED = 3"

subsection \<open>The Go structs\<close>

record User =
  uId :: bytes
  uHandle :: string
  uFullname :: string
  uAvatarUrl :: string
  uLang :: string
  uLocation :: string
  uTimezone :: string
  uMetadata :: bytes
  uCreatedAt :: int
  uUpdatedAt :: int
  uLastOnlineAt :: int

record Friend =
  fUser :: User
  fState :: int

record NNotification =
  nId :: bytes
  nUserID :: bytes
  nSubject :: string
  nContent :: "string \<times> string"
  nCode :: int
  nSenderID :: bytes
  nCreatedAt :: int
  nExpiresAt :: int
  nPersistent :: bool

text \<open>
  An \<^verbatim>\<open>error\<close> value: the handlers only ask whether it is a \<^verbatim>\<open>*pq.Error\<close>.
\<close>

datatype error = PqError string | OtherError string

fun is_pq :: "error \<Rightarrow> bool" where
  "is_pq (PqError m) = True"
| "is_pq (OtherError m) = False"

datatype level = LDebug | LInfo | LWarn | LError

text \<open>
  What \<^verbatim>\<open>session.Send\<close> receives: the two error envelopes, the empty envelope that
  acknowledges a mutation, and the envelope with the friends payload. The first argument
  is the collation id.
\<close>

datatype response =
    ErrorMessageBadInput string string
  | ErrorMessageRuntimeException string string
  | EnvelopeAck string
  | EnvelopeFriends string "Friend list"

fun is_bad_input :: "response \<Rightarrow> bool" where
  "is_bad_input (ErrorMessageBadInput c m) = True"
| "is_bad_input r = False"

record session =
  sess_UserID :: bytes
  sess_Handle :: string

subsection \<open>The backend and the environment\<close>

text \<open>
  The backend is everything a handler can change besides the session: the committed
  tables, the log, the batches handed to the notification service, and the calls made to
  \<^verbatim>\<open>Begin\<close>, \<^verbatim>\<open>Commit\<close> and \<^verbatim>\<open>Rollback\<close>.
\<close>

record backend =
  db :: store
  logs :: "(level \<times> string) list"
  notified :: "NNotification list list"
  begin_calls :: nat
  commit_calls :: nat
  rollback_calls :: nat

text \<open>
  The environment fixes what the source leaves to its collaborators: which calls fail and
  with which error (\<open>exec_fails k\<close> is about the \<open>k\<close>-th statement of a transaction,
  counted from 0; when the iteration over the rows of a query fails, \<open>rows_err\<close> is the
  error and \<open>rows_seen\<close> the number of rows that \<^verbatim>\<open>rows.Next()\<close> delivered before it),
  the order in which the store yields the rows of the query of \<^verbatim>\<open>getFriends\<close>, which
  has no \<^verbatim>\<open>ORDER BY\<close>, the readings of \<^verbatim>\<open>nowMs()\<close> in call order, the ids of
  \<^verbatim>\<open>uuid.NewV4()\<close>, the expiry of the notification service, the answer of the social
  client, the notification code, and the two package-level functions \<^verbatim>\<open>friendAdd\<close> and
  \<^verbatim>\<open>friendAddHandle\<close> that the add handlers call and that live in another file: they get
  the backend, not the session, and return an error or nil.
\<close>

record env =
  begin_fails :: "error option"
  exec_fails :: "nat \<Rightarrow> error option"
  query_fails :: "error option"
  scan_fails :: "error option"
  rows_err :: "error option"
  rows_seen :: nat
  commit_fails :: "error option"
  rollback_fails :: "error option"
  marshal_fails :: "error option"
  notify_fails :: "error option"
  nowMs :: "nat \<Rightarrow> int"
  NewV4 :: "nat \<Rightarrow> bytes"
  expiryMs :: int
  GetFacebookFriends :: "string \<Rightarrow> error + string list"
  row_order :: "(users_row \<times> user_edge_row) list \<Rightarrow> (users_row \<times> user_edge_row) list"
  NOTIFICATION_FRIEND_JOIN_GAME :: int
  core_friendAdd :: "backend \<Rightarrow> bytes \<Rightarrow> string \<Rightarrow> bytes \<Rightarrow> backend \<times> error option"
  core_friendAddHandle :: "backend \<Rightarrow> bytes \<Rightarrow> string \<Rightarrow> string \<Rightarrow> backend \<times> error option"

definition no_faults :: "env \<Rightarrow> bool" where
  "no_faults e =
     (begin_fails e = None \<and> exec_fails e = (\<lambda>k. None) \<and> query_fails e = None \<and>
      scan_fails e = None \<and> rows_err e = None \<and> commit_fails e = None \<and>
      rollback_fails e = None \<and> marshal_fails e = None \<and> notify_fails e = None)"

datatype outcome = Returned backend "response list" | Panicked backend "response list"

fun final :: "outcome \<Rightarrow> backend" where
  "final (Returned b rs) = b"
| "final (Panicked b rs) = b"

fun responses :: "outcome \<Rightarrow> response list" where
  "responses (Returned b rs) = rs"
| "responses (Panicked b rs) = rs"

fun panicked :: "outcome \<Rightarrow> bool" where
  "panicked (Returned b rs) = False"
| "panicked (Panicked b rs) = True"

definition log :: "level \<Rightarrow> string \<Rightarrow> backend \<Rightarrow> backend" where
  "log l m b = b\<lparr>logs := logs b @ [(l, m)]\<rparr>"

subsection \<open>Transactions\<close>

record tx =
  tx_db :: store
  tx_stmts :: nat

text \<open>\<^verbatim>\<open>p.db.Begin()\<close>: a transaction on a copy of the committed tables, or an error.\<close>

definition db_Begin :: "env \<Rightarrow> backend \<Rightarrow> backend \<times> (error + tx)" where
  "db_Begin e b =
     (case begin_fails e of
        Some err \<Rightarrow> (b\<lparr>begin_calls := Suc (begin_calls b)\<rparr>, Inl err)
      | None \<Rightarrow> (b\<lparr>begin_calls := Suc (begin_calls b)\<rparr>, Inr \<lparr>tx_db = db b, tx_stmts = 0\<rparr>))"

text \<open>
  \<^verbatim>\<open>tx.Exec\<close>: the statement is a function on the tables that also counts the rows it
  affected. A failing statement changes nothing and returns a nil \<^verbatim>\<open>Result\<close> with the
  error (\<open>Inl\<close>); otherwise the \<^verbatim>\<open>Result\<close> carries the rows affected (\<open>Inr\<close>).
\<close>

definition tx_Exec :: "env \<Rightarrow> tx \<Rightarrow> (store \<Rightarrow> store \<times> nat) \<Rightarrow> tx \<times> (error + nat)" where
  "tx_Exec e t stmt =
     (case exec_fails e (tx_stmts t) of
        Some err \<Rightarrow> (t\<lparr>tx_stmts := Suc (tx_stmts t)\<rparr>, Inl err)
      | None \<Rightarrow>
          (t\<lparr>tx_db := fst (stmt (tx_db t)), tx_stmts := Suc (tx_stmts t)\<rparr>,
           Inr (snd (stmt (tx_db t)))))"

definition tx_Commit :: "env \<Rightarrow> backend \<Rightarrow> tx \<Rightarrow> backend \<times> error option" where
  "tx_Commit e b t =
     (case commit_fails e of
        Some err \<Rightarrow> (b\<lparr>commit_calls := Suc (commit_calls b)\<rparr>, Some err)
      | None \<Rightarrow> (b\<lparr>db := tx_db t, commit_calls := Suc (commit_calls b)\<rparr>, None))"

definition tx_Rollback :: "env \<Rightarrow> backend \<Rightarrow> tx \<Rightarrow> backend \<times> error option" where
  "tx_Rollback e b t = (b\<lparr>rollback_calls := Suc (rollback_calls b)\<rparr>, rollback_fails e)"

subsection \<open>The SQL statements\<close>

definition edge_from_to :: "bytes \<Rightarrow> bytes \<Rightarrow> user_edge_row \<Rightarrow> bool" where
  "edge_from_to s d r = (source_id r = s \<and> destination_id r = d)"

text \<open>\<^verbatim>\<open>DELETE FROM user_edge WHERE source_id = $1 AND destination_id = $2\<close>\<close>

definition delete_edge :: "bytes \<Rightarrow> bytes \<Rightarrow> store \<Rightarrow> store \<times> nat" where
  "delete_edge s d st =
     (st\<lparr>user_edge := filter (\<lambda>r. \<not> edge_from_to s d r) (user_edge st)\<rparr>,
      length (filter (edge_from_to s d) (user_edge st)))"

text \<open>
  \<^verbatim>\<open>DELETE FROM user_edge WHERE source_id = $1 AND destination_id = $2 AND state != 3\<close>.
  A row whose state is \<^verbatim>\<open>NULL\<close> does not satisfy \<^verbatim>\<open>state != 3\<close>.
\<close>

definition not_blocked :: "user_edge_row \<Rightarrow> bool" where
  "not_blocked r = (case state r of None \<Rightarrow> False | Some v \<Rightarrow> v \<noteq> 3)"

definition delete_edge_not_blocked :: "bytes \<Rightarrow> bytes \<Rightarrow> store \<Rightarrow> store \<times> nat" where
  "delete_edge_not_blocked s d st =
     (st\<lparr>user_edge := filter (\<lambda>r. \<not> (edge_from_to s d r \<and> not_blocked r)) (user_edge st)\<rparr>,
      length (filter (\<lambda>r. edge_from_to s d r \<and> not_blocked r) (user_edge st)))"

text \<open>
  \<^verbatim>\<open>UPDATE user_edge SET state = 3, updated_at = $3 WHERE source_id = $1 AND destination_id = $2\<close>
\<close>

definition block_edge :: "bytes \<Rightarrow> bytes \<Rightarrow> int \<Rightarrow> store \<Rightarrow> store \<times> nat" where
  "block_edge s d ts st =
     (st\<lparr>user_edge :=
          map (\<lambda>r. if edge_from_to s d r then r\<lparr>state := Some 3, edge_updated_at := ts\<rparr> else r)
            (user_edge st)\<rparr>,
      length (filter (edge_from_to s d) (user_edge st)))"

text \<open>
  \<^verbatim>\<open>UPDATE user_edge_metadata SET count = count - 1, updated_at = $2 WHERE source_id = $1\<close>
\<close>

definition decrement_count :: "bytes \<Rightarrow> int \<Rightarrow> store \<Rightarrow> store \<times> nat" where
  "decrement_count s ts st =
     (st\<lparr>user_edge_metadata :=
          map (\<lambda>m. if md_source_id m = s then m\<lparr>md_count := md_count m - 1, md_updated_at := ts\<rparr>
                   else m)
            (user_edge_metadata st)\<rparr>,
      length (filter (\<lambda>m. md_source_id m = s) (user_edge_metadata st)))"

text \<open>
  \<^verbatim>\<open>UPDATE user_edge_metadata SET count = count + 1, updated_at = $1 WHERE source_id IN ($2, ...)\<close>
\<close>

definition increment_counts :: "int \<Rightarrow> bytes list \<Rightarrow> store \<Rightarrow> store \<times> nat" where
  "increment_counts ts ids st =
     (st\<lparr>user_edge_metadata :=
          map (\<lambda>m. if md_source_id m \<in> set ids
                   then m\<lparr>md_count := md_count m + 1, md_updated_at := ts\<rparr> else m)
            (user_edge_metadata st)\<rparr>,
      length (filter (\<lambda>m. md_source_id m \<in> set ids) (user_edge_metadata st)))"

text \<open>
  \<^verbatim>\<open>UPDATE user_edge_metadata SET count = $1, updated_at = $2 WHERE source_id = $3\<close>
\<close>

definition set_count :: "int \<Rightarrow> int \<Rightarrow> bytes \<Rightarrow> store \<Rightarrow> store \<times> nat" where
  "set_count n ts s st =
     (st\<lparr>user_edge_metadata :=
          map (\<lambda>m. if md_source_id m = s then m\<lparr>md_count := n, md_updated_at := ts\<rparr> else m)
            (user_edge_metadata st)\<rparr>,
      length (filter (\<lambda>m. md_source_id m = s) (user_edge_metadata st)))"

text \<open>
  \<^verbatim>\<open>INSERT INTO user_edge (source_id, position, updated_at, destination_id, state) VALUES\<close>
  \<^verbatim>\<open>($1, $2, $2, $k, 0), ($k, $2, $2, $1, 0), ...\<close>: two rows for each matched user, in the
  order of the parameters.
\<close>

definition mirrored_rows :: "bytes \<Rightarrow> int \<Rightarrow> bytes \<Rightarrow> user_edge_row list" where
  "mirrored_rows userID ts friend =
     [\<lparr>source_id = userID, position = ts, edge_updated_at = ts, destination_id = friend,
        state = Some 0\<rparr>,
      \<lparr>source_id = friend, position = ts, edge_updated_at = ts, destination_id = userID,
        state = Some 0\<rparr>]"

definition insert_edges :: "bytes \<Rightarrow> int \<Rightarrow> bytes list \<Rightarrow> store \<Rightarrow> store \<times> nat" where
  "insert_edges userID ts friends st =
     (st\<lparr>user_edge := user_edge st @ concat (map (mirrored_rows userID ts) friends)\<rparr>,
      2 * length friends)"

text \<open>
  \<^verbatim>\<open>SELECT id FROM users WHERE facebook_id IN ($1, ...)\<close>: a \<^verbatim>\<open>NULL\<close> facebook id
  matches nothing.
\<close>

definition facebook_id_in :: "string list \<Rightarrow> users_row \<Rightarrow> bool" where
  "facebook_id_in fbids u =
     (case users_facebook_id u of None \<Rightarrow> False | Some f \<Rightarrow> f \<in> set fbids)"

definition select_ids_by_facebook :: "string list \<Rightarrow> store \<Rightarrow> bytes list" where
  "select_ids_by_facebook fbids st = map users_id (filter (facebook_id_in fbids) (users st))"

text \<open>\<^verbatim>\<open>uuid.FromBytes\<close>: a UUID is exactly 16 bytes.\<close>

definition uuid_FromBytes :: "bytes \<Rightarrow> error + bytes" where
  "uuid_FromBytes input =
     (if length input \<noteq> 16 then Inl (OtherError ''uuid: UUID must be exactly 16 bytes long'')
      else Inr input)"

definition err_of :: "error + 'a \<Rightarrow> error option" where
  "err_of r = (case r of Inl err \<Rightarrow> Some err | Inr v \<Rightarrow> None)"

text \<open>
  \<^verbatim>\<open>tx.Query\<close> is a statement of the transaction like \<^verbatim>\<open>tx.Exec\<close>; it returns rows.
\<close>

definition tx_Query :: "env \<Rightarrow> tx \<Rightarrow> (store \<Rightarrow> 'a list) \<Rightarrow> tx \<times> (error + 'a list)" where
  "tx_Query e t q =
     (case exec_fails e (tx_stmts t) of
        Some err \<Rightarrow> (t\<lparr>tx_stmts := Suc (tx_stmts t)\<rparr>, Inl err)
      | None \<Rightarrow> (t\<lparr>tx_stmts := Suc (tx_stmts t)\<rparr>, Inr (q (tx_db t))))"

text \<open>
  \<^verbatim>\<open>rows.Next()\<close> returns false at the end of the rows and also when the iteration
  fails; only \<^verbatim>\<open>rows.Err()\<close> tells the two apart. The rows a loop sees are all the rows,
  or the rows before the failure.
\<close>

definition delivered :: "env \<Rightarrow> 'a list \<Rightarrow> 'a list" where
  "delivered e rows = (case rows_err e of None \<Rightarrow> rows | Some err \<Rightarrow> take (rows_seen e) rows)"

text \<open>
  The \<^verbatim>\<open>for rows.Next() { rows.Scan(...) }\<close> loop followed by \<^verbatim>\<open>rows.Err()\<close>: a failing
  \<^verbatim>\<open>Scan\<close> needs a row to scan, and whichever row it is, the function returns with the error.
\<close>

definition scan_all :: "env \<Rightarrow> 'a list \<Rightarrow> error + 'a list" where
  "scan_all e rows =
     (case (if delivered e rows = [] then None else scan_fails e) of
        Some err \<Rightarrow> Inl err
      | None \<Rightarrow> (case rows_err e of Some err \<Rightarrow> Inl err | None \<Rightarrow> Inr (delivered e rows)))"

subsection \<open>\<^verbatim>\<open>friendRemove\<close>\<close>

text \<open>
  The body after \<^verbatim>\<open>Begin\<close>, up to the point where the deferred function takes over. It
  returns the transaction, the value of \<^verbatim>\<open>err\<close> and whether the body panicked.
  \<^verbatim>\<open>res.RowsAffected()\<close> is called before \<^verbatim>\<open>err\<close> is looked at; when \<^verbatim>\<open>Exec\<close> failed,
  \<^verbatim>\<open>res\<close> is the nil interface and the call is a nil dereference.
\<close>

definition friendRemove_body :: "env \<Rightarrow> session \<Rightarrow> bytes \<Rightarrow> tx \<Rightarrow> tx \<times> error option \<times> bool" where
  "friendRemove_body e s friendIDBytes t0 =
     (let updatedAt = nowMs e 0 in
      case tx_Exec e t0 (delete_edge (sess_UserID s) friendIDBytes) of
        (t1, Inl err) \<Rightarrow> (t1, Some err, True)
      | (t1, Inr rowsAffected) \<Rightarrow>
          (case (if rowsAffected > 0
                 then (case tx_Exec e t1 (decrement_count (sess_UserID s) updatedAt) of
                         (t2, r2) \<Rightarrow> (t2, err_of r2))
                 else (t1, None)) of
             (t2, Some err) \<Rightarrow> (t2, Some err, False)
           | (t2, None) \<Rightarrow>
               (case tx_Exec e t2 (delete_edge friendIDBytes (sess_UserID s)) of
                  (t3, Inl err) \<Rightarrow> (t3, Some err, True)
                | (t3, Inr rowsAffected') \<Rightarrow>
                    (if rowsAffected' > 0
                     then (case tx_Exec e t3 (decrement_count friendIDBytes updatedAt) of
                             (t4, r4) \<Rightarrow> (t4, err_of r4, False))
                     else (t3, None, False)))))"

definition friendRemove_deferred ::
  "env \<Rightarrow> string \<Rightarrow> tx \<Rightarrow> error option \<Rightarrow> backend \<Rightarrow> backend \<times> response list" where
  "friendRemove_deferred e cid t err b =
     (case err of
        Some x \<Rightarrow>
          (case tx_Rollback e (log LError ''Could not remove friend'' b) t of
             (b1, rerr) \<Rightarrow>
               ((case rerr of
                   Some y \<Rightarrow> log LError ''Could not rollback transaction'' b1
                 | None \<Rightarrow> b1),
                [ErrorMessageRuntimeException cid ''Failed to remove friend'']))
      | None \<Rightarrow>
          (case tx_Commit e b t of
             (b1, Some y) \<Rightarrow>
               (log LError ''Could not commit transaction'' b1,
                [ErrorMessageRuntimeException cid ''Failed to remove friend''])
           | (b1, None) \<Rightarrow> (log LInfo ''Removed friend'' b1, [EnvelopeAck cid])))"

definition warn_more_than_one :: "'a list \<Rightarrow> string \<Rightarrow> backend \<Rightarrow> backend" where
  "warn_more_than_one rest m b = (if rest \<noteq> [] then log LWarn m b else b)"

definition friendRemove :: "env \<Rightarrow> session \<Rightarrow> string \<Rightarrow> bytes list \<Rightarrow> backend \<Rightarrow> outcome" where
  "friendRemove e s cid userIds b =
     (case userIds of
        [] \<Rightarrow> Returned b [ErrorMessageBadInput cid ''At least one user ID must be present'']
      | removeFriendRequest # rest \<Rightarrow>
          (let b1 = warn_more_than_one rest
                 ''There are more than one user ID passed to the request - only processing the first item of the list.'' b
           in
           if removeFriendRequest = []
           then Returned b1 [ErrorMessageBadInput cid ''User ID must be present'']
           else
             (case uuid_FromBytes removeFriendRequest of
                Inl err \<Rightarrow>
                  Returned (log LWarn ''Could not add friend'' b1)
                    [ErrorMessageBadInput cid ''Invalid User ID'']
              | Inr friendID \<Rightarrow>
                  if friendID = sess_UserID s
                  then Returned (log LWarn ''Cannot remove self'' b1)
                         [ErrorMessageBadInput cid ''Cannot remove self'']
                  else
                    (case db_Begin e b1 of
                       (b2, Inl err) \<Rightarrow>
                         Returned (log LError ''Could not remove friend'' b2)
                           [ErrorMessageRuntimeException cid ''Failed to remove friend'']
                     | (b2, Inr t0) \<Rightarrow>
                         (case friendRemove_body e s friendID t0 of
                            (t, err, p) \<Rightarrow>
                              (case friendRemove_deferred e cid t err b2 of
                                 (b3, rs) \<Rightarrow> if p then Panicked b3 rs else Returned b3 rs))))))"

subsection \<open>\<^verbatim>\<open>friendBlock\<close>\<close>

text \<open>
  Here \<^verbatim>\<open>err\<close> is checked before \<^verbatim>\<open>res.RowsAffected()\<close> is called, so the body never
  panics: it returns the transaction and the value of \<^verbatim>\<open>err\<close>.
\<close>

definition friendBlock_body :: "env \<Rightarrow> session \<Rightarrow> bytes \<Rightarrow> tx \<Rightarrow> tx \<times> error option" where
  "friendBlock_body e s userIDBytes t0 =
     (case tx_Exec e t0 (block_edge (sess_UserID s) userIDBytes (nowMs e 0)) of
        (t1, Inl err) \<Rightarrow> (t1, Some err)
      | (t1, Inr rowsAffected) \<Rightarrow>
          if rowsAffected = 0
          then (t1, Some (OtherError ''Could not block user. User ID may not exist''))
          else
            (case tx_Exec e t1 (delete_edge_not_blocked userIDBytes (sess_UserID s)) of
               (t2, Inl err) \<Rightarrow> (t2, Some err)
             | (t2, Inr rowsAffected') \<Rightarrow>
                 if rowsAffected' = 1
                 then (case tx_Exec e t2 (decrement_count userIDBytes (nowMs e 1)) of
                         (t3, r3) \<Rightarrow> (t3, err_of r3))
                 else (t2, None)))"

definition friendBlock_deferred ::
  "env \<Rightarrow> string \<Rightarrow> tx \<Rightarrow> error option \<Rightarrow> backend \<Rightarrow> backend \<times> response list" where
  "friendBlock_deferred e cid t err b =
     (case err of
        Some x \<Rightarrow>
          (case tx_Rollback e
                  (log (if is_pq x then LError else LWarn) ''Could not block user'' b) t of
             (b1, rerr) \<Rightarrow>
               ((case rerr of
                   Some y \<Rightarrow> log LError ''Could not rollback transaction'' b1
                 | None \<Rightarrow> b1),
                [ErrorMessageRuntimeException cid ''Could not block user'']))
      | None \<Rightarrow>
          (case tx_Commit e b t of
             (b1, Some y) \<Rightarrow>
               (log LError ''Could not commit transaction'' b1,
                [ErrorMessageRuntimeException cid ''Could not block user''])
           | (b1, None) \<Rightarrow> (log LInfo ''User blocked'' b1, [EnvelopeAck cid])))"

definition friendBlock :: "env \<Rightarrow> session \<Rightarrow> string \<Rightarrow> bytes list \<Rightarrow> backend \<Rightarrow> outcome" where
  "friendBlock e s cid userIds b =
     (case userIds of
        [] \<Rightarrow> Returned b [ErrorMessageBadInput cid ''At least one user ID must be present'']
      | blockUserRequest # rest \<Rightarrow>
          (let b1 = warn_more_than_one rest
                 ''There are more than one user ID passed to the request - only processing the first item of the list.'' b
           in
           if blockUserRequest = []
           then Returned b1 [ErrorMessageBadInput cid ''User ID must be present'']
           else
             (case uuid_FromBytes blockUserRequest of
                Inl err \<Rightarrow>
                  Returned (log LWarn ''Could not block user'' b1)
                    [ErrorMessageBadInput cid ''Invalid User ID'']
              | Inr userID \<Rightarrow>
                  if userID = sess_UserID s
                  then Returned (log LWarn ''Cannot block self'' b1)
                         [ErrorMessageBadInput cid ''Cannot block self'']
                  else
                    (case db_Begin e b1 of
                       (b2, Inl err) \<Rightarrow>
                         Returned (log LError ''Could not block user'' b2)
                           [ErrorMessageRuntimeException cid ''Failed to block friend'']
                     | (b2, Inr t0) \<Rightarrow>
                         (case friendBlock_body e s userID t0 of
                            (t, err) \<Rightarrow>
                              (case friendBlock_deferred e cid t err b2 of
                                 (b3, rs) \<Rightarrow> Returned b3 rs))))))"

subsection \<open>\<^verbatim>\<open>friendAdd\<close>, \<^verbatim>\<open>friendAddById\<close>, \<^verbatim>\<open>friendAddByHandle\<close>\<close>

text \<open>
  The \<^verbatim>\<open>Id\<close> of a \<^verbatim>\<open>TFriendsAdd_FriendsAdd\<close> is a oneof: a user id, a handle, or nothing.
\<close>

datatype FriendsAdd_Id = FriendsAdd_UserId bytes | FriendsAdd_Handle string | FriendsAdd_unset

definition friendAddById :: "env \<Rightarrow> session \<Rightarrow> string \<Rightarrow> bytes \<Rightarrow> backend \<Rightarrow> outcome" where
  "friendAddById e s cid friendIdBytes b =
     (if friendIdBytes = []
      then Returned b [ErrorMessageBadInput cid ''User ID must be present'']
      else
        (case uuid_FromBytes friendIdBytes of
           Inl err \<Rightarrow>
             Returned (log LWarn ''Could not add friend'' b)
               [ErrorMessageBadInput cid ''Invalid User ID'']
         | Inr friendID \<Rightarrow>
             if friendID = sess_UserID s
             then Returned (log LWarn ''Cannot add self'' b)
                    [ErrorMessageBadInput cid ''Cannot add self'']
             else
               (case core_friendAdd e b (sess_UserID s) (sess_Handle s) friendID of
                  (b1, Some err) \<Rightarrow>
                    Returned (log LError ''Could not add friend'' b1)
                      [ErrorMessageRuntimeException cid ''Failed to add friend'']
                | (b1, None) \<Rightarrow> Returned (log LDebug ''Added friend'' b1) [EnvelopeAck cid])))"

definition friendAddByHandle :: "env \<Rightarrow> session \<Rightarrow> string \<Rightarrow> string \<Rightarrow> backend \<Rightarrow> outcome" where
  "friendAddByHandle e s cid friendHandle b =
     (if friendHandle = [] \<or> friendHandle = sess_Handle s
      then Returned b
             [ErrorMessageBadInput cid
                ''User handle must be present and not equal to user's handle'']
      else
        (case core_friendAddHandle e b (sess_UserID s) (sess_Handle s) friendHandle of
           (b1, Some err) \<Rightarrow>
             Returned (log LError ''Could not add friend'' b1)
               [ErrorMessageRuntimeException cid ''Failed to add friend'']
         | (b1, None) \<Rightarrow> Returned (log LDebug ''Added friend'' b1) [EnvelopeAck cid]))"

text \<open>The type switch has a case for each of the two variants and no default.\<close>

definition friendAdd :: "env \<Rightarrow> session \<Rightarrow> string \<Rightarrow> FriendsAdd_Id list \<Rightarrow> backend \<Rightarrow> outcome" where
  "friendAdd e s cid friends b =
     (case friends of
        [] \<Rightarrow> Returned b [ErrorMessageBadInput cid ''At least one friend must be present'']
      | f # rest \<Rightarrow>
          (let b1 = warn_more_than_one rest
                 ''There are more than one friend passed to the request - only processing the first item of the list.'' b
           in
           case f of
             FriendsAdd_UserId userId \<Rightarrow> friendAddById e s cid userId b1
           | FriendsAdd_Handle h \<Rightarrow> friendAddByHandle e s cid h b1
           | FriendsAdd_unset \<Rightarrow> Returned b1 []))"

subsection \<open>\<^verbatim>\<open>getFriends\<close> and \<^verbatim>\<open>friendsList\<close>\<close>

text \<open>A \<^verbatim>\<open>sql.NullString\<close> or \<^verbatim>\<open>sql.NullInt64\<close> reads as the zero value when it is NULL.\<close>

definition String_of :: "string option \<Rightarrow> string" where
  "String_of v = (case v of None \<Rightarrow> [] | Some x \<Rightarrow> x)"

definition Int64_of :: "int option \<Rightarrow> int" where
  "Int64_of v = (case v of None \<Rightarrow> 0 | Some x \<Rightarrow> x)"

definition scan_Friend :: "users_row \<Rightarrow> user_edge_row \<Rightarrow> Friend" where
  "scan_Friend u r =
     \<lparr>fUser =
        \<lparr>uId = users_id u, uHandle = String_of (users_handle u),
         uFullname = String_of (users_fullname u), uAvatarUrl = String_of (users_avatar_url u),
         uLang = String_of (users_lang u), uLocation = String_of (users_location u),
         uTimezone = String_of (users_timezone u), uMetadata = users_metadata u,
         uCreatedAt = Int64_of (users_created_at u), uUpdatedAt = Int64_of (users_updated_at u),
         uLastOnlineAt = Int64_of (users_last_online_at u)\<rparr>,
      fState = Int64_of (state r)\<rparr>"

text \<open>
  \<^verbatim>\<open>SELECT ... FROM users, user_edge\<close> followed by the filter. The rows of the result are
  the pairs of a users row and an edge row that satisfy the filter, which is the condition
  of the \<^verbatim>\<open>WHERE\<close> clause on a users row, an edge row and the parameter \<^verbatim>\<open>$1\<close>. The
  query has no \<^verbatim>\<open>ORDER BY\<close>: the store yields these rows in an order of its own, which
  the environment fixes.
\<close>

definition joined_rows ::
  "(users_row \<Rightarrow> user_edge_row \<Rightarrow> bytes \<Rightarrow> bool) \<Rightarrow> bytes \<Rightarrow> store \<Rightarrow> (users_row \<times> user_edge_row) list" where
  "joined_rows filterQuery userID st =
     concat (map (\<lambda>u. map (Pair u) (filter (\<lambda>r. filterQuery u r userID) (user_edge st)))
               (users st))"

definition select_users_edges ::
  "env \<Rightarrow> (users_row \<Rightarrow> user_edge_row \<Rightarrow> bytes \<Rightarrow> bool) \<Rightarrow> bytes \<Rightarrow> store \<Rightarrow>
   (users_row \<times> user_edge_row) list" where
  "select_users_edges e filterQuery userID st = row_order e (joined_rows filterQuery userID st)"

text \<open>
  \<^verbatim>\<open>getFriends\<close> runs the query outside any transaction and scans the rows that the
  loop sees. \<^verbatim>\<open>rows.Err()\<close> is not consulted: when the iteration fails, the friends
  scanned so far are returned with a nil error.
\<close>

definition getFriends ::
  "env \<Rightarrow> (users_row \<Rightarrow> user_edge_row \<Rightarrow> bytes \<Rightarrow> bool) \<Rightarrow> bytes \<Rightarrow> store \<Rightarrow> error + Friend list" where
  "getFriends e filterQuery userID st =
     (case query_fails e of
        Some err \<Rightarrow> Inl err
      | None \<Rightarrow>
          (let rows = delivered e (select_users_edges e filterQuery userID st) in
           case (if rows = [] then None else scan_fails e) of
             Some err \<Rightarrow> Inl err
           | None \<Rightarrow> Inr (map (\<lambda>(u, r). scan_Friend u r) rows)))"

text \<open>\<^verbatim>\<open>WHERE id = destination_id AND source_id = $1\<close>\<close>

definition friendsList_filter :: "users_row \<Rightarrow> user_edge_row \<Rightarrow> bytes \<Rightarrow> bool" where
  "friendsList_filter u r p1 = (users_id u = destination_id r \<and> source_id r = p1)"

definition friendsList :: "env \<Rightarrow> session \<Rightarrow> string \<Rightarrow> backend \<Rightarrow> outcome" where
  "friendsList e s cid b =
     (case getFriends e friendsList_filter (sess_UserID s) (db b) of
        Inl err \<Rightarrow>
          Returned (log LError ''Could not get friends'' b)
            [ErrorMessageRuntimeException cid ''Could not get friends'']
      | Inr friends \<Rightarrow> Returned b [EnvelopeFriends cid friends])"

subsection \<open>\<^verbatim>\<open>addFacebookFriends\<close>\<close>

text \<open>
  The body up to its return: the backend, the transaction if one was begun, the value of
  \<^verbatim>\<open>err\<close>, and \<^verbatim>\<open>friendUserIDs\<close>. The matched ids are \<^verbatim>\<open>paramsEdge[2:]\<close>, so
  \<^verbatim>\<open>len(paramsEdge) <= 2\<close> says that nobody matched.
\<close>

definition addFacebookFriends_body ::
  "env \<Rightarrow> bytes \<Rightarrow> string \<Rightarrow> backend \<Rightarrow> backend \<times> tx option \<times> error option \<times> bytes list" where
  "addFacebookFriends_body e userID accessToken b =
     (let ts = nowMs e 0 in
      case GetFacebookFriends e accessToken of
        Inl err \<Rightarrow> (b, None, Some err, [])
      | Inr fbFriends \<Rightarrow>
          if fbFriends = [] then (b, None, None, [])
          else
            (case db_Begin e b of
               (b1, Inl err) \<Rightarrow> (b1, None, Some err, [])
             | (b1, Inr t0) \<Rightarrow>
                 (case tx_Query e t0 (select_ids_by_facebook fbFriends) of
                    (t1, Inl err) \<Rightarrow> (b1, Some t1, Some err, [])
                  | (t1, Inr rows) \<Rightarrow>
                      (case scan_all e rows of
                         Inl err \<Rightarrow> (b1, Some t1, Some err, [])
                       | Inr matched \<Rightarrow>
                           if matched = [] then (b1, Some t1, None, [])
                           else
                             (case tx_Exec e t1 (insert_edges userID ts matched) of
                                (t2, Inl err) \<Rightarrow> (b1, Some t2, Some err, [])
                              | (t2, Inr n2) \<Rightarrow>
                                  (case tx_Exec e t2 (increment_counts ts matched) of
                                     (t3, Inl err) \<Rightarrow> (b1, Some t3, Some err, [])
                                   | (t3, Inr n3) \<Rightarrow>
                                       (case tx_Exec e t3
                                               (set_count (int (length matched)) ts userID) of
                                          (t4, Inl err) \<Rightarrow> (b1, Some t4, Some err, [])
                                        | (t4, Inr n4) \<Rightarrow> (b1, Some t4, None, matched))))))))"

definition join_notifications ::
  "env \<Rightarrow> bytes \<Rightarrow> string \<Rightarrow> string \<Rightarrow> int \<Rightarrow> bytes list \<Rightarrow> NNotification list" where
  "join_notifications e userID handle fbid ts friendUserIDs =
     map (\<lambda>(i, fid).
            \<lparr>nId = NewV4 e i, nUserID = fid, nSubject = ''Your friend has just joined the game'',
             nContent = (handle, fbid), nCode = NOTIFICATION_FRIEND_JOIN_GAME e,
             nSenderID = userID, nCreatedAt = ts, nExpiresAt = ts + expiryMs e,
             nPersistent = True\<rparr>)
         (enumerate 0 friendUserIDs)"

definition addFacebookFriends_deferred ::
  "env \<Rightarrow> bytes \<Rightarrow> string \<Rightarrow> string \<Rightarrow> tx option \<Rightarrow> error option \<Rightarrow> bytes list \<Rightarrow> backend \<Rightarrow> backend" where
  "addFacebookFriends_deferred e userID handle fbid txo err friendUserIDs b =
     (case err of
        Some x \<Rightarrow>
          (let b1 = log LError ''Could not import friends from Facebook'' b in
           case txo of
             None \<Rightarrow> b1
           | Some t \<Rightarrow>
               (case tx_Rollback e b1 t of
                  (b2, Some y) \<Rightarrow> log LError ''Could not rollback transaction'' b2
                | (b2, None) \<Rightarrow> b2))
      | None \<Rightarrow>
          (case txo of
             None \<Rightarrow> b
           | Some t \<Rightarrow>
               (case tx_Commit e b t of
                  (b1, Some y) \<Rightarrow> log LError ''Could not commit transaction'' b1
                | (b1, None) \<Rightarrow>
                    (let b2 = log LDebug ''Imported friends from Facebook'' b1 in
                     if friendUserIDs = [] then b2
                     else
                       (case marshal_fails e of
                          Some y \<Rightarrow>
                            log LWarn ''Failed to send Facebook friend join notifications'' b2
                        | None \<Rightarrow>
                            (let b3 = b2\<lparr>notified := notified b2 @
                                   [join_notifications e userID handle fbid (nowMs e 0)
                                      friendUserIDs]\<rparr>
                             in
                             case notify_fails e of
                               Some y \<Rightarrow>
                                 log LWarn ''Failed to send Facebook friend join notifications'' b3
                             | None \<Rightarrow> b3))))))"

definition addFacebookFriends ::
  "env \<Rightarrow> bytes \<Rightarrow> string \<Rightarrow> string \<Rightarrow> string \<Rightarrow> backend \<Rightarrow> backend" where
  "addFacebookFriends e userID handle fbid accessToken b =
     (case addFacebookFriends_body e userID accessToken b of
        (b1, txo, err, friendUserIDs) \<Rightarrow>
          addFacebookFriends_deferred e userID handle fbid txo err friendUserIDs b1)"

subsection \<open>Reading the tables\<close>

text \<open>The rows of the directed edge from \<open>s\<close> to \<open>d\<close>, and the counters kept for \<open>s\<close>.\<close>

definition edge_rows :: "store \<Rightarrow> bytes \<Rightarrow> bytes \<Rightarrow> user_edge_row list" where
  "edge_rows st s d = filter (edge_from_to s d) (user_edge st)"

definition counts :: "store \<Rightarrow> bytes \<Rightarrow> int list" where
  "counts st s = map md_count (filter (\<lambda>m. md_source_id m = s) (user_edge_metadata st))"

text \<open>
  The pair \<open>(source_id, destination_id)\<close> is the key of an edge: the edge from \<open>s\<close> to
  \<open>d\<close> is in state \<open>v\<close> when exactly one row runs from \<open>s\<close> to \<open>d\<close> and its state is
  \<open>v\<close>.
\<close>

definition edge_in_state :: "store \<Rightarrow> bytes \<Rightarrow> bytes \<Rightarrow> int \<Rightarrow> bool" where
  "edge_in_state st s d v = (map state (edge_rows st s d) = [Some v])"

subsection \<open>The net effect of the transactions on the tables\<close>

text \<open>
  The statements of \<^verbatim>\<open>friendRemove\<close> in their order, when none of them fails: each
  decrement runs only when the delete before it affected a row.
\<close>

definition remove_rows :: "bytes \<Rightarrow> bytes \<Rightarrow> int \<Rightarrow> store \<Rightarrow> store" where
  "remove_rows a f ts st =
     (let st1 = fst (delete_edge a f st);
          st2 = (if edge_rows st a f \<noteq> [] then fst (decrement_count a ts st1) else st1);
          st3 = fst (delete_edge f a st2)
      in if edge_rows st2 f a \<noteq> [] then fst (decrement_count f ts st3) else st3)"

text \<open>
  The statements of \<^verbatim>\<open>friendBlock\<close> in their order, when none of them fails and the
  update found a row: the decrement runs only when the delete affected exactly one row.
\<close>

definition block_rows :: "bytes \<Rightarrow> bytes \<Rightarrow> int \<Rightarrow> int \<Rightarrow> store \<Rightarrow> store" where
  "block_rows a u ts0 ts1 st =
     (let st1 = fst (block_edge a u ts0 st);
          st2 = fst (delete_edge_not_blocked u a st1)
      in if snd (delete_edge_not_blocked u a st1) = 1 then fst (decrement_count u ts1 st2)
         else st2)"

subsection \<open>What the specification says of an outcome\<close>

text \<open>
  A request is rejected by validation when the handler returns, the one response is a
  bad-input error, the tables and the notifications are as before, and no transaction was
  begun.
\<close>

definition rejected_by_validation :: "backend \<Rightarrow> outcome \<Rightarrow> bool" where
  "rejected_by_validation b out =
     (\<not> panicked out \<and> length (responses out) = 1 \<and> list_all is_bad_input (responses out) \<and>
      db (final out) = db b \<and> notified (final out) = notified b \<and>
      begin_calls (final out) = begin_calls b)"

text \<open>
  The list of friends in the words of the specification. A friend record carries the
  profile of the peer (identifier, handle, full name, avatar URL, language, location,
  timezone, metadata, the three timestamps) and the state of the edge; a column that is
  NULL reads as the empty string or as 0.
\<close>

definition friend_record :: "users_row \<Rightarrow> user_edge_row \<Rightarrow> Friend" where
  "friend_record u r =
     \<lparr>fUser =
        \<lparr>uId = users_id u,
         uHandle = (case users_handle u of None \<Rightarrow> [] | Some x \<Rightarrow> x),
         uFullname = (case users_fullname u of None \<Rightarrow> [] | Some x \<Rightarrow> x),
         uAvatarUrl = (case users_avatar_url u of None \<Rightarrow> [] | Some x \<Rightarrow> x),
         uLang = (case users_lang u of None \<Rightarrow> [] | Some x \<Rightarrow> x),
         uLocation = (case users_location u of None \<Rightarrow> [] | Some x \<Rightarrow> x),
         uTimezone = (case users_timezone u of None \<Rightarrow> [] | Some x \<Rightarrow> x),
         uMetadata = users_metadata u,
         uCreatedAt = (case users_created_at u of None \<Rightarrow> 0 | Some x \<Rightarrow> x),
         uUpdatedAt = (case users_updated_at u of None \<Rightarrow> 0 | Some x \<Rightarrow> x),
         uLastOnlineAt = (case users_last_online_at u of None \<Rightarrow> 0 | Some x \<Rightarrow> x)\<rparr>,
      fState = (case state r of None \<Rightarrow> 0 | Some v \<Rightarrow> v)\<rparr>"




fun payload :: "response \<Rightarrow> Friend list" where
  "payload (EnvelopeFriends c friends) = friends"
| "payload r = []"

definition listed :: "outcome \<Rightarrow> Friend list" where
  "listed out = concat (map payload (responses out))"

definition friend_ids :: "Friend list \<Rightarrow> bytes list" where
  "friend_ids fs = map (\<lambda>f. uId (fUser f)) fs"

subsection \<open>Concrete users, tables and environments\<close>

definition uA :: bytes where "uA = replicate 16 1"
definition uB :: bytes where "uB = replicate 16 2"
definition uC :: bytes where "uC = replicate 16 3"

definition sessA :: session where
  "sessA = \<lparr>sess_UserID = uA, sess_Handle = ''alice''\<rparr>"

definition profile :: "bytes \<Rightarrow> string \<Rightarrow> string option \<Rightarrow> users_row" where
  "profile i h fb =
     \<lparr>users_id = i, users_handle = Some h, users_fullname = None, users_avatar_url = None,
      users_lang = None, users_location = None, users_timezone = None, users_metadata = [],
      users_created_at = Some 1, users_updated_at = Some 1, users_last_online_at = None,
      users_facebook_id = fb\<rparr>"

definition edge :: "bytes \<Rightarrow> bytes \<Rightarrow> int \<Rightarrow> int \<Rightarrow> user_edge_row" where
  "edge s d ts v =
     \<lparr>source_id = s, position = ts, edge_updated_at = ts, destination_id = d, state = Some v\<rparr>"

definition counter :: "bytes \<Rightarrow> int \<Rightarrow> user_edge_metadata_row" where
  "counter s n = \<lparr>md_source_id = s, md_count = n, md_updated_at = 1\<rparr>"

definition three_users :: "users_row list" where
  "three_users =
     [profile uA ''alice'' (Some ''fb_a''), profile uB ''bob'' (Some ''fb_b''),
      profile uC ''carol'' None]"

definition backend_of :: "store \<Rightarrow> backend" where
  "backend_of st =
     \<lparr>db = st, logs = [], notified = [], begin_calls = 0, commit_calls = 0, rollback_calls = 0\<rparr>"

text \<open>Alice and Bob are friends.\<close>

definition st_friends :: store where
  "st_friends =
     \<lparr>users = three_users,
      user_edge = [edge uA uB 5 0, edge uB uA 5 0],
      user_edge_metadata = [counter uA 1, counter uB 1, counter uC 0]\<rparr>"

text \<open>Bob has blocked Alice; Alice still holds her edge to Bob.\<close>

definition st_blocked_by_peer :: store where
  "st_blocked_by_peer =
     \<lparr>users = three_users,
      user_edge = [edge uA uB 5 0, edge uB uA 5 3],
      user_edge_metadata = [counter uA 1, counter uB 0, counter uC 0]\<rparr>"

text \<open>Nobody is connected to anybody.\<close>

definition st_strangers :: store where
  "st_strangers =
     \<lparr>users = three_users, user_edge = [],
      user_edge_metadata = [counter uA 0, counter uB 0, counter uC 0]\<rparr>"

text \<open>Alice and Carol are friends; Bob, whose Facebook id is \<^verbatim>\<open>fb_b\<close>, is a stranger.\<close>

definition st_before_import :: store where
  "st_before_import =
     \<lparr>users = three_users,
      user_edge = [edge uA uC 5 0, edge uC uA 5 0],
      user_edge_metadata = [counter uA 1, counter uB 0, counter uC 1]\<rparr>"

text \<open>
  Alice became a friend of Carol at time 5 and of Bob at time 9; Bob registered before
  Carol.
\<close>

definition st_two_friends :: store where
  "st_two_friends =
     \<lparr>users = three_users,
      user_edge = [edge uA uC 5 0, edge uC uA 5 0, edge uA uB 9 0, edge uB uA 9 0],
      user_edge_metadata = [counter uA 2, counter uB 1, counter uC 1]\<rparr>"

text \<open>
  An environment in which nothing fails and the store yields rows by ascending position,
  one in which the iteration over the rows of a query fails after \<open>n\<close> rows, and one in
  which statement \<open>n\<close> of a transaction fails.
\<close>

definition env_ok :: env where
  "env_ok =
     \<lparr>begin_fails = None, exec_fails = (\<lambda>k. None), query_fails = None, scan_fails = None,
      rows_err = None, rows_seen = 0, commit_fails = None, rollback_fails = None, marshal_fails = None,
      notify_fails = None, nowMs = (\<lambda>k. 9), NewV4 = (\<lambda>i. replicate 16 (of_nat i)),
      expiryMs = 100, GetFacebookFriends = (\<lambda>token. Inr [''fb_b'', ''fb_z'']),
      row_order = sort_key (\<lambda>(u, r). position r),
      NOTIFICATION_FRIEND_JOIN_GAME = 1,
      core_friendAdd = (\<lambda>b u h f. (b, None)),
      core_friendAddHandle = (\<lambda>b u h f. (b, None))\<rparr>"

definition env_iteration_fails :: "nat \<Rightarrow> env" where
  "env_iteration_fails n =
     env_ok\<lparr>rows_err := Some (PqError ''connection lost''), rows_seen := n\<rparr>"

definition env_statement_fails :: "nat \<Rightarrow> env" where
  "env_statement_fails n =
     env_ok\<lparr>exec_fails := (\<lambda>k. if k = n then Some (PqError ''connection lost'') else None)\<rparr>"

section \<open>Properties\<close>

subsection \<open>The statements on the tables\<close>

lemma filter_map_if:
  assumes "\<And>x. P (g x) = P x"
  shows "filter P (map (\<lambda>x. if Q x then g x else x) xs) =
         map (\<lambda>x. if Q x then g x else x) (filter P xs)"
  using assms by (induction xs) auto

lemma map_if_filter_same:
  "map (\<lambda>x. if Q x then g x else x) (filter Q xs) = map g (filter Q xs)"
  by (induction xs) auto

lemma map_if_filter_other:
  assumes "\<And>x. P x \<Longrightarrow> \<not> Q x"
  shows "map (\<lambda>x. if Q x then g x else x) (filter P xs) = filter P xs"
  using assms by (induction xs) auto

lemma edge_rows_delete_edge:
  "edge_rows (fst (delete_edge s d st)) s' d' = (if s' = s \<and> d' = d then [] else edge_rows st s' d')"
  by (auto simp: edge_rows_def delete_edge_def edge_from_to_def intro!: filter_cong)

lemma snd_delete_edge: "snd (delete_edge s d st) = length (edge_rows st s d)"
  by (simp add: delete_edge_def edge_rows_def)

lemma counts_delete_edge: "counts (fst (delete_edge s d st)) u = counts st u"
  by (simp add: counts_def delete_edge_def)

lemma metadata_delete_edge:
  "user_edge_metadata (fst (delete_edge s d st)) = user_edge_metadata st"
  by (simp add: delete_edge_def)

lemma users_delete_edge: "users (fst (delete_edge s d st)) = users st"
  by (simp add: delete_edge_def)

lemma delete_edge_absent:
  "edge_rows st s d = [] \<Longrightarrow> fst (delete_edge s d st) = st"
  by (simp add: delete_edge_def edge_rows_def filter_empty_conv filter_id_conv)

lemma counts_decrement_count:
  "counts (fst (decrement_count s ts st)) u =
     (if u = s then map (\<lambda>c. c - 1) (counts st u) else counts st u)"
  by (induction "user_edge_metadata st" arbitrary: st)
     (auto simp: counts_def decrement_count_def filter_map comp_def intro!: filter_cong map_cong)

lemma edge_rows_decrement_count:
  "edge_rows (fst (decrement_count s ts st)) a c = edge_rows st a c"
  by (simp add: edge_rows_def decrement_count_def)

lemma user_edge_decrement_count:
  "user_edge (fst (decrement_count s ts st)) = user_edge st"
  by (simp add: decrement_count_def)

lemma snd_block_edge: "snd (block_edge s d ts st) = length (edge_rows st s d)"
  by (simp add: block_edge_def edge_rows_def)

lemma edge_rows_block_edge:
  "edge_rows (fst (block_edge s d ts st)) s' d' =
     (if s' = s \<and> d' = d
      then map (\<lambda>r. r\<lparr>state := Some 3, edge_updated_at := ts\<rparr>) (edge_rows st s d)
      else edge_rows st s' d')"
proof -
  have key: "edge_from_to s' d' (r\<lparr>state := Some 3, edge_updated_at := ts\<rparr>) = edge_from_to s' d' r"
    for r by (simp add: edge_from_to_def)
  have rows: "edge_rows (fst (block_edge s d ts st)) s' d' =
      map (\<lambda>r. if edge_from_to s d r then r\<lparr>state := Some 3, edge_updated_at := ts\<rparr> else r)
        (edge_rows st s' d')"
    by (simp add: edge_rows_def block_edge_def filter_map_if [where P = "edge_from_to s' d'", OF key])
  show ?thesis
  proof (cases "s' = s \<and> d' = d")
    case True
    then show ?thesis
      unfolding rows by (simp add: edge_rows_def map_if_filter_same)
  next
    case False
    then have "\<And>r. edge_from_to s' d' r \<Longrightarrow> \<not> edge_from_to s d r"
      by (auto simp: edge_from_to_def)
    then show ?thesis using False
      unfolding rows by (auto simp: edge_rows_def map_if_filter_other)
  qed
qed

lemma metadata_block_edge:
  "user_edge_metadata (fst (block_edge s d ts st)) = user_edge_metadata st"
  by (simp add: block_edge_def)

lemma snd_delete_edge_not_blocked:
  "snd (delete_edge_not_blocked s d st) = length (filter not_blocked (edge_rows st s d))"
  by (simp add: delete_edge_not_blocked_def edge_rows_def conj_commute)

lemma edge_rows_delete_edge_not_blocked:
  "edge_rows (fst (delete_edge_not_blocked s d st)) s' d' =
     (if s' = s \<and> d' = d then filter (\<lambda>r. \<not> not_blocked r) (edge_rows st s d)
      else edge_rows st s' d')"
  by (auto simp: edge_rows_def delete_edge_not_blocked_def edge_from_to_def intro!: filter_cong)

lemma metadata_delete_edge_not_blocked:
  "user_edge_metadata (fst (delete_edge_not_blocked s d st)) = user_edge_metadata st"
  by (simp add: delete_edge_not_blocked_def)

lemma delete_edge_not_blocked_none:
  "filter not_blocked (edge_rows st s d) = [] \<Longrightarrow> fst (delete_edge_not_blocked s d st) = st"
  by (simp add: delete_edge_not_blocked_def edge_rows_def filter_empty_conv filter_id_conv)

lemma counts_metadata_cong:
  "user_edge_metadata st' = user_edge_metadata st \<Longrightarrow> counts st' u = counts st u"
  by (simp add: counts_def)

lemma counts_insert_edges: "counts (fst (insert_edges a ts ids st)) u = counts st u"
  by (simp add: counts_def insert_edges_def)

lemma counts_increment_counts:
  "counts (fst (increment_counts ts ids st)) u =
     (if u \<in> set ids then map (\<lambda>c. c + 1) (counts st u) else counts st u)"
proof -
  have "map md_count (filter (\<lambda>m. md_source_id m = u)
          (map (\<lambda>m. if md_source_id m \<in> set ids
                     then m\<lparr>md_count := md_count m + 1, md_updated_at := ts\<rparr> else m) ms)) =
        (if u \<in> set ids then map (\<lambda>c. c + 1) (map md_count (filter (\<lambda>m. md_source_id m = u) ms))
         else map md_count (filter (\<lambda>m. md_source_id m = u) ms))"
    for ms :: "user_edge_metadata_row list"
    by (induction ms) auto
  then show ?thesis by (simp add: counts_def increment_counts_def)
qed

lemma counts_set_count:
  "counts (fst (set_count n ts s st)) u =
     (if u = s then map (\<lambda>c. n) (counts st u) else counts st u)"
proof -
  have "map md_count (filter (\<lambda>m. md_source_id m = u)
          (map (\<lambda>m. if md_source_id m = s then m\<lparr>md_count := n, md_updated_at := ts\<rparr> else m) ms)) =
        (if u = s then map (\<lambda>c. n) (map md_count (filter (\<lambda>m. md_source_id m = u) ms))
         else map md_count (filter (\<lambda>m. md_source_id m = u) ms))"
    for ms :: "user_edge_metadata_row list"
    by (induction ms) auto
  then show ?thesis by (simp add: counts_def set_count_def)
qed

lemma tx_Exec_ok:
  "exec_fails e = (\<lambda>k. None) \<Longrightarrow>
   tx_Exec e t stmt =
     (t\<lparr>tx_db := fst (stmt (tx_db t)), tx_stmts := Suc (tx_stmts t)\<rparr>, Inr (snd (stmt (tx_db t))))"
  by (simp add: tx_Exec_def)

lemma db_warn_more_than_one: "db (warn_more_than_one rest m b) = db b"
  by (simp add: warn_more_than_one_def log_def)


subsection \<open>The concrete users and environments\<close>

lemma ids_distinct: "uA \<noteq> uB" "uB \<noteq> uA" "uA \<noteq> uC" "uC \<noteq> uA" "uB \<noteq> uC" "uC \<noteq> uB"
  by (simp_all add: uA_def uB_def uC_def)

lemma ids_length: "length uA = 16" "length uB = 16" "length uC = 16"
  by (simp_all add: uA_def uB_def uC_def)

lemma no_faults_env_ok: "no_faults env_ok"
  by (simp add: no_faults_def env_ok_def)


subsection \<open>Removing a friend\<close>

lemma remove_rows_edges:
  assumes "a \<noteq> f"
  shows "edge_rows (remove_rows a f ts st) s d =
     (if (s = a \<and> d = f) \<or> (s = f \<and> d = a) then [] else edge_rows st s d)"
  using assms
  by (simp add: remove_rows_def Let_def edge_rows_decrement_count edge_rows_delete_edge)

lemma remove_rows_counts:
  assumes "a \<noteq> f"
  shows "counts (remove_rows a f ts st) u =
     (if (u = a \<and> edge_rows st a f \<noteq> []) \<or> (u = f \<and> edge_rows st f a \<noteq> [])
      then map (\<lambda>c. c - 1) (counts st u) else counts st u)"
  using assms
  by (simp add: remove_rows_def Let_def edge_rows_decrement_count edge_rows_delete_edge
        counts_decrement_count counts_delete_edge)

lemma remove_rows_absent:
  assumes "edge_rows st a f = []" "edge_rows st f a = []"
  shows "remove_rows a f ts st = st"
  using assms by (simp add: remove_rows_def Let_def delete_edge_absent)

lemma friendRemove_body_ok:
  assumes "exec_fails e = (\<lambda>k. None)"
  shows "tx_db (fst (friendRemove_body e s F t0)) =
           remove_rows (sess_UserID s) F (nowMs e 0) (tx_db t0) \<and>
         snd (friendRemove_body e s F t0) = (None, False)"
  using assms
  by (simp add: friendRemove_body_def tx_Exec_ok remove_rows_def Let_def snd_delete_edge err_of_def)

lemma friendRemove_ok:
  assumes "no_faults e" "length F = 16" "F \<noteq> sess_UserID s"
  shows "friendRemove e s cid (F # rest) b =
           Returned
             (log LInfo ''Removed friend''
                ((warn_more_than_one rest
                   ''There are more than one user ID passed to the request - only processing the first item of the list.'' b)
                 \<lparr>begin_calls := Suc (begin_calls b),
                   db := remove_rows (sess_UserID s) F (nowMs e 0) (db b),
                   commit_calls := Suc (commit_calls b)\<rparr>))
             [EnvelopeAck cid]"
proof -
  from assms(1) have ef: "exec_fails e = (\<lambda>k. None)" and bf: "begin_fails e = None"
    and cf: "commit_fails e = None"
    by (simp_all add: no_faults_def)
  define t0 where "t0 = \<lparr>tx_db = db b, tx_stmts = 0\<rparr>"
  obtain t where body: "friendRemove_body e s F t0 = (t, None, False)"
    and t: "tx_db t = remove_rows (sess_UserID s) F (nowMs e 0) (db b)"
    using friendRemove_body_ok[OF ef, of s F t0]
    by (cases "friendRemove_body e s F t0") (simp add: t0_def)
  from assms(2) have "F \<noteq> []" by auto
  then show ?thesis
    using assms(2,3) body t
    by (simp add: friendRemove_def uuid_FromBytes_def db_Begin_def bf t0_def
          friendRemove_deferred_def tx_Commit_def cf Let_def warn_more_than_one_def log_def)
qed

text \<open>
  Claim C3. A remove request for a well-formed target other than the caller, with a store
  that does not fail: the handler returns an acknowledgement. When no row runs between
  caller and target in either direction, the tables are exactly as before. When the
  mirrored pair is connected, every counter row of the caller and of the target goes down
  by one. In every case no row is left between the two, and the counter of a side goes
  down by one exactly when a row ran from that side to the other, and stays otherwise.
\<close>

theorem friendRemove_removes_pair:
  assumes "no_faults e" and "length F = 16" and "F \<noteq> sess_UserID s"
  shows "\<not> panicked (friendRemove e s cid (F # rest) b) \<and>
         responses (friendRemove e s cid (F # rest) b) = [EnvelopeAck cid] \<and>
         (edge_rows (db b) (sess_UserID s) F = [] \<and> edge_rows (db b) F (sess_UserID s) = [] \<longrightarrow>
            db (final (friendRemove e s cid (F # rest) b)) = db b) \<and>
         (edge_in_state (db b) (sess_UserID s) F CONNECTED \<and>
          edge_in_state (db b) F (sess_UserID s) CONNECTED \<longrightarrow>
            counts (db (final (friendRemove e s cid (F # rest) b))) (sess_UserID s) =
              map (\<lambda>c. c - 1) (counts (db b) (sess_UserID s)) \<and>
            counts (db (final (friendRemove e s cid (F # rest) b))) F =
              map (\<lambda>c. c - 1) (counts (db b) F)) \<and>
         edge_rows (db (final (friendRemove e s cid (F # rest) b))) (sess_UserID s) F = [] \<and>
         edge_rows (db (final (friendRemove e s cid (F # rest) b))) F (sess_UserID s) = [] \<and>
         counts (db (final (friendRemove e s cid (F # rest) b))) (sess_UserID s) =
           (if edge_rows (db b) (sess_UserID s) F = [] then counts (db b) (sess_UserID s)
            else map (\<lambda>c. c - 1) (counts (db b) (sess_UserID s))) \<and>
         counts (db (final (friendRemove e s cid (F # rest) b))) F =
           (if edge_rows (db b) F (sess_UserID s) = [] then counts (db b) F
            else map (\<lambda>c. c - 1) (counts (db b) F))"
proof -
  let ?out = "friendRemove e s cid (F # rest) b"
  have st: "db (final ?out) = remove_rows (sess_UserID s) F (nowMs e 0) (db b)"
    and ok: "\<not> panicked ?out" "responses ?out = [EnvelopeAck cid]"
    by (simp_all add: friendRemove_ok [OF assms] log_def)
  have ne: "sess_UserID s \<noteq> F" using assms(3) by simp
  have conn: "edge_in_state (db b) x y CONNECTED \<Longrightarrow> edge_rows (db b) x y \<noteq> []" for x y
    by (auto simp: edge_in_state_def)
  show ?thesis
    using ne ok conn
    by (auto simp: st remove_rows_edges [OF ne] remove_rows_counts [OF ne] remove_rows_absent)
qed

theorem friendRemove_removes_pair_witness:
  "no_faults env_ok \<and> length uB = 16 \<and> uB \<noteq> sess_UserID sessA \<and>
   edge_in_state (db (backend_of st_friends)) uA uB CONNECTED \<and>
   edge_in_state (db (backend_of st_friends)) uB uA CONNECTED \<and>
   counts (db (backend_of st_friends)) uA = [1] \<and>
   counts (db (backend_of st_friends)) uB = [1] \<and>
   responses (friendRemove env_ok sessA ''r1'' [uB, uC] (backend_of st_friends)) = [EnvelopeAck ''r1''] \<and>
   counts (db (final (friendRemove env_ok sessA ''r1'' [uB, uC] (backend_of st_friends)))) uA = [0] \<and>
   counts (db (final (friendRemove env_ok sessA ''r1'' [uB, uC] (backend_of st_friends)))) uB = [0] \<and>
   edge_rows (db (final (friendRemove env_ok sessA ''r1'' [uB, uC] (backend_of st_friends)))) uA uB = [] \<and>
   edge_rows (db (final (friendRemove env_ok sessA ''r1'' [uB, uC] (backend_of st_friends)))) uB uA = [] \<and>
   db (final (friendRemove env_ok sessA ''r2'' [uC] (backend_of st_friends))) = st_friends"
proof -
  have h: "no_faults env_ok" "length uB = 16" "uB \<noteq> sess_UserID sessA"
    "length uC = 16" "uC \<noteq> sess_UserID sessA"
    by (simp_all add: no_faults_env_ok ids_length ids_distinct sessA_def)
  have pre: "edge_in_state (db (backend_of st_friends)) uA uB CONNECTED"
    "edge_in_state (db (backend_of st_friends)) uB uA CONNECTED"
    "counts (db (backend_of st_friends)) uA = [1]"
    "counts (db (backend_of st_friends)) uB = [1]"
    "edge_rows (db (backend_of st_friends)) uA uC = []"
    "edge_rows (db (backend_of st_friends)) uC uA = []"
    by (simp_all add: edge_in_state_def edge_rows_def counts_def backend_of_def st_friends_def
          edge_def counter_def edge_from_to_def CONNECTED_def ids_distinct)
  show ?thesis
    using friendRemove_removes_pair [OF h(1,2,3), of "''r1''" "[uC]" "backend_of st_friends"]
      friendRemove_removes_pair [OF h(1,4,5), of "''r2''" "[]" "backend_of st_friends"]
      h pre
    by (simp add: sessA_def backend_of_def)
qed

lemma friendRemove_deferred_db:
  "db (fst (friendRemove_deferred e cid t err b)) =
     (if err = None \<and> commit_fails e = None then tx_db t else db b)"
  by (simp add: friendRemove_deferred_def tx_Commit_def tx_Rollback_def log_def
      split: option.splits)

lemma friendRemove_deferred_responses:
  "snd (friendRemove_deferred e cid t err b) =
     [if err = None \<and> commit_fails e = None then EnvelopeAck cid
      else ErrorMessageRuntimeException cid ''Failed to remove friend'']"
  by (simp add: friendRemove_deferred_def tx_Commit_def tx_Rollback_def log_def
      split: option.splits)

lemma friendRemove_first_delete_fails:
  assumes "begin_fails e = None" and "exec_fails e 0 = Some err"
    and "length F = 16" and "F \<noteq> sess_UserID s"
  shows "panicked (friendRemove e s cid (F # rest) b) \<and>
         responses (friendRemove e s cid (F # rest) b) =
           [ErrorMessageRuntimeException cid ''Failed to remove friend''] \<and>
         db (final (friendRemove e s cid (F # rest) b)) = db b \<and>
         rollback_calls (final (friendRemove e s cid (F # rest) b)) = Suc (rollback_calls b)"
proof -
  from assms(3) have "F \<noteq> []" by auto
  moreover have "friendRemove_body e s F \<lparr>tx_db = db b, tx_stmts = 0\<rparr> =
      (\<lparr>tx_db = db b, tx_stmts = Suc 0\<rparr>, Some err, True)"
    using assms(2) by (simp add: friendRemove_body_def tx_Exec_def)
  ultimately show ?thesis
    using assms(1,3,4)
    by (cases "rollback_fails e")
       (simp_all add: friendRemove_def uuid_FromBytes_def db_Begin_def Let_def
          friendRemove_deferred_def tx_Rollback_def warn_more_than_one_def log_def)
qed

text \<open>
  Claim C6 says that a remove whose statement fails ends without a crash. Here the first
  \<^verbatim>\<open>DELETE\<close> fails for Alice removing Bob: the deferred function logs, rolls back and
  sends the runtime error, the tables stay as they were, and the handler panics. It also
  panics when the second \<^verbatim>\<open>DELETE\<close> (statement 2 of the transaction) fails.
\<close>

theorem friendRemove_failed_delete_panics:
  "panicked (friendRemove (env_statement_fails 0) sessA ''r6'' [uB] (backend_of st_friends)) \<and>
   responses (friendRemove (env_statement_fails 0) sessA ''r6'' [uB] (backend_of st_friends)) =
     [ErrorMessageRuntimeException ''r6'' ''Failed to remove friend''] \<and>
   logs (final (friendRemove (env_statement_fails 0) sessA ''r6'' [uB] (backend_of st_friends))) =
     [(LError, ''Could not remove friend'')] \<and>
   rollback_calls (final (friendRemove (env_statement_fails 0) sessA ''r6'' [uB] (backend_of st_friends))) = 1 \<and>
   db (final (friendRemove (env_statement_fails 0) sessA ''r6'' [uB] (backend_of st_friends))) = st_friends \<and>
   panicked (friendRemove (env_statement_fails 2) sessA ''r6'' [uB] (backend_of st_friends))"
  by (simp add: friendRemove_def friendRemove_body_def friendRemove_deferred_def
        env_statement_fails_def env_ok_def sessA_def uA_def uB_def uC_def backend_of_def st_friends_def
        uuid_FromBytes_def db_Begin_def tx_Exec_def tx_Rollback_def warn_more_than_one_def log_def
        delete_edge_def decrement_count_def edge_from_to_def edge_def counter_def err_of_def)


subsection \<open>Blocking a user\<close>

lemma friendBlock_body_ok:
  assumes "exec_fails e = (\<lambda>k. None)" "edge_rows (tx_db t0) (sess_UserID s) U \<noteq> []"
  shows "tx_db (fst (friendBlock_body e s U t0)) =
           block_rows (sess_UserID s) U (nowMs e 0) (nowMs e 1) (tx_db t0) \<and>
         snd (friendBlock_body e s U t0) = None"
  using assms
  by (simp add: friendBlock_body_def tx_Exec_ok block_rows_def Let_def snd_block_edge err_of_def)

lemma friendBlock_ok:
  assumes "no_faults e" "length U = 16" "U \<noteq> sess_UserID s"
    and "edge_rows (db b) (sess_UserID s) U \<noteq> []"
  shows "friendBlock e s cid (U # rest) b =
           Returned
             (log LInfo ''User blocked''
                ((warn_more_than_one rest
                   ''There are more than one user ID passed to the request - only processing the first item of the list.'' b)
                 \<lparr>begin_calls := Suc (begin_calls b),
                   db := block_rows (sess_UserID s) U (nowMs e 0) (nowMs e 1) (db b),
                   commit_calls := Suc (commit_calls b)\<rparr>))
             [EnvelopeAck cid]"
proof -
  from assms(1) have ef: "exec_fails e = (\<lambda>k. None)" and bf: "begin_fails e = None"
    and cf: "commit_fails e = None"
    by (simp_all add: no_faults_def)
  define t0 where "t0 = \<lparr>tx_db = db b, tx_stmts = 0\<rparr>"
  obtain t where body: "friendBlock_body e s U t0 = (t, None)"
    and t: "tx_db t = block_rows (sess_UserID s) U (nowMs e 0) (nowMs e 1) (db b)"
    using friendBlock_body_ok[OF ef, of t0 s U] assms(4)
    by (cases "friendBlock_body e s U t0") (simp add: t0_def)
  from assms(2) have "U \<noteq> []" by auto
  then show ?thesis
    using assms(2,3) body t
    by (simp add: friendBlock_def uuid_FromBytes_def db_Begin_def bf t0_def
          friendBlock_deferred_def tx_Commit_def cf Let_def warn_more_than_one_def log_def)
qed

lemma block_rows_connected:
  assumes "a \<noteq> u" "edge_in_state st a u CONNECTED" "edge_in_state st u a CONNECTED"
  shows "edge_in_state (block_rows a u ts0 ts1 st) a u BLOCKED"
    and "edge_rows (block_rows a u ts0 ts1 st) u a = []"
    and "counts (block_rows a u ts0 ts1 st) u = map (\<lambda>c. c - 1) (counts st u)"
    and "counts (block_rows a u ts0 ts1 st) a = counts st a"
proof -
  let ?st1 = "fst (block_edge a u ts0 st)"
  from assms(3) obtain r where r: "edge_rows st u a = [r]" "state r = Some 0"
    by (auto simp: edge_in_state_def CONNECTED_def)
  from assms(1) have ua: "edge_rows ?st1 u a = [r]"
    using r(1) by (auto simp: edge_rows_block_edge)
  have nb: "not_blocked r" using r(2) by (simp add: not_blocked_def)
  have one: "snd (delete_edge_not_blocked u a ?st1) = 1"
    by (simp add: snd_delete_edge_not_blocked ua nb)
  have br: "block_rows a u ts0 ts1 st =
      fst (decrement_count u ts1 (fst (delete_edge_not_blocked u a ?st1)))"
    by (simp add: block_rows_def Let_def one)
  from assms(2) obtain q where q: "edge_rows st a u = [q]"
    by (auto simp: edge_in_state_def)
  show "edge_in_state (block_rows a u ts0 ts1 st) a u BLOCKED"
    using assms(1) q
    by (simp add: br edge_in_state_def edge_rows_decrement_count
          edge_rows_delete_edge_not_blocked edge_rows_block_edge BLOCKED_def)
  show "edge_rows (block_rows a u ts0 ts1 st) u a = []"
    by (simp add: br edge_rows_decrement_count edge_rows_delete_edge_not_blocked ua nb)
  have md: "counts (fst (delete_edge_not_blocked u a ?st1)) x = counts st x" for x
    by (simp add: counts_def metadata_delete_edge_not_blocked metadata_block_edge)
  show "counts (block_rows a u ts0 ts1 st) u = map (\<lambda>c. c - 1) (counts st u)"
    by (simp add: br counts_decrement_count md)
  show "counts (block_rows a u ts0 ts1 st) a = counts st a"
    using assms(1) by (simp add: br counts_decrement_count md)
qed

lemma block_rows_blocked_back:
  assumes "a \<noteq> u" "length (edge_rows st a u) = 1" "edge_in_state st u a BLOCKED"
  shows "edge_in_state (block_rows a u ts0 ts1 st) a u BLOCKED"
    and "edge_rows (block_rows a u ts0 ts1 st) u a = edge_rows st u a"
    and "user_edge_metadata (block_rows a u ts0 ts1 st) = user_edge_metadata st"
proof -
  let ?st1 = "fst (block_edge a u ts0 st)"
  from assms(3) obtain r where r: "edge_rows st u a = [r]" "state r = Some 3"
    by (auto simp: edge_in_state_def BLOCKED_def)
  from assms(1) have ua: "edge_rows ?st1 u a = [r]"
    using r(1) by (auto simp: edge_rows_block_edge)
  have nb: "\<not> not_blocked r" using r(2) by (simp add: not_blocked_def)
  have none: "filter not_blocked (edge_rows ?st1 u a) = []"
    by (simp add: ua nb)
  have br: "block_rows a u ts0 ts1 st = ?st1"
    by (simp add: block_rows_def Let_def snd_delete_edge_not_blocked none
          delete_edge_not_blocked_none)
  from assms(2) obtain q where q: "edge_rows st a u = [q]"
    by (cases "edge_rows st a u") auto
  show "edge_in_state (block_rows a u ts0 ts1 st) a u BLOCKED"
    using q by (simp add: br edge_in_state_def edge_rows_block_edge BLOCKED_def)
  show "edge_rows (block_rows a u ts0 ts1 st) u a = edge_rows st u a"
    by (simp add: br ua r(1))
  show "user_edge_metadata (block_rows a u ts0 ts1 st) = user_edge_metadata st"
    by (simp add: br metadata_block_edge)
qed

text \<open>
  Claim C4. The caller blocks a user while the two are connected in both directions (one
  row each way, state 0), with a store that does not fail: afterwards the caller's edge
  is in state 3, no row runs from the target to the caller, the target's counter is one
  less, and the caller's counter is what it was.
\<close>

theorem friendBlock_connected_pair:
  assumes "no_faults e" and "length U = 16" and "U \<noteq> sess_UserID s"
    and "edge_in_state (db b) (sess_UserID s) U CONNECTED"
    and "edge_in_state (db b) U (sess_UserID s) CONNECTED"
  shows "responses (friendBlock e s cid (U # rest) b) = [EnvelopeAck cid] \<and>
         edge_in_state (db (final (friendBlock e s cid (U # rest) b))) (sess_UserID s) U BLOCKED \<and>
         edge_rows (db (final (friendBlock e s cid (U # rest) b))) U (sess_UserID s) = [] \<and>
         counts (db (final (friendBlock e s cid (U # rest) b))) U =
           map (\<lambda>c. c - 1) (counts (db b) U) \<and>
         counts (db (final (friendBlock e s cid (U # rest) b))) (sess_UserID s) =
           counts (db b) (sess_UserID s)"
proof -
  have rows: "edge_rows (db b) (sess_UserID s) U \<noteq> []"
    using assms(4) by (auto simp: edge_in_state_def)
  have ne: "sess_UserID s \<noteq> U" using assms(3) by simp
  have st: "db (final (friendBlock e s cid (U # rest) b)) =
      block_rows (sess_UserID s) U (nowMs e 0) (nowMs e 1) (db b)"
    and ok: "responses (friendBlock e s cid (U # rest) b) = [EnvelopeAck cid]"
    by (simp_all add: friendBlock_ok [OF assms(1,2,3) rows] log_def)
  show ?thesis
    unfolding st ok using block_rows_connected [OF ne assms(4,5)] by simp
qed

theorem friendBlock_connected_pair_witness:
  "no_faults env_ok \<and> length uB = 16 \<and> uB \<noteq> sess_UserID sessA \<and>
   edge_in_state (db (backend_of st_friends)) (sess_UserID sessA) uB CONNECTED \<and>
   edge_in_state (db (backend_of st_friends)) uB (sess_UserID sessA) CONNECTED \<and>
   counts (db (backend_of st_friends)) uA = [1] \<and>
   counts (db (backend_of st_friends)) uB = [1] \<and>
   responses (friendBlock env_ok sessA ''b1'' [uB] (backend_of st_friends)) = [EnvelopeAck ''b1''] \<and>
   edge_in_state (db (final (friendBlock env_ok sessA ''b1'' [uB] (backend_of st_friends)))) uA uB BLOCKED \<and>
   edge_rows (db (final (friendBlock env_ok sessA ''b1'' [uB] (backend_of st_friends)))) uB uA = [] \<and>
   counts (db (final (friendBlock env_ok sessA ''b1'' [uB] (backend_of st_friends)))) uB = [0] \<and>
   counts (db (final (friendBlock env_ok sessA ''b1'' [uB] (backend_of st_friends)))) uA = [1]"
proof -
  have h: "no_faults env_ok" "length uB = 16" "uB \<noteq> sess_UserID sessA"
    by (simp_all add: no_faults_env_ok ids_length ids_distinct sessA_def)
  have pre: "edge_in_state (db (backend_of st_friends)) (sess_UserID sessA) uB CONNECTED"
    "edge_in_state (db (backend_of st_friends)) uB (sess_UserID sessA) CONNECTED"
    "counts (db (backend_of st_friends)) uA = [1]"
    "counts (db (backend_of st_friends)) uB = [1]"
    by (simp_all add: edge_in_state_def edge_rows_def counts_def backend_of_def st_friends_def
          edge_def counter_def edge_from_to_def CONNECTED_def ids_distinct sessA_def)
  show ?thesis
    using friendBlock_connected_pair [OF h pre(1,2), of "''b1''" "[]"] h pre
    by (simp add: sessA_def)
qed

text \<open>
  Claim C5. The caller blocks a user to whom it has no edge row; the transaction begins
  and the update runs: the caller gets the runtime error \<^verbatim>\<open>Could not block user\<close>,
  \<^verbatim>\<open>Rollback\<close> is called once and \<^verbatim>\<open>Commit\<close> never, the committed tables are the
  same, and the failure is logged as a warning.
\<close>

theorem friendBlock_no_edge_fails:
  assumes "begin_fails e = None" and "exec_fails e 0 = None"
    and "length U = 16" and "U \<noteq> sess_UserID s"
    and "edge_rows (db b) (sess_UserID s) U = []"
  shows "\<not> panicked (friendBlock e s cid (U # rest) b) \<and>
         responses (friendBlock e s cid (U # rest) b) =
           [ErrorMessageRuntimeException cid ''Could not block user''] \<and>
         db (final (friendBlock e s cid (U # rest) b)) = db b \<and>
         rollback_calls (final (friendBlock e s cid (U # rest) b)) = Suc (rollback_calls b) \<and>
         commit_calls (final (friendBlock e s cid (U # rest) b)) = commit_calls b \<and>
         (LWarn, ''Could not block user'') \<in> set (logs (final (friendBlock e s cid (U # rest) b)))"
proof -
  from assms(3) have "U \<noteq> []" by auto
  moreover have "friendBlock_body e s U \<lparr>tx_db = db b, tx_stmts = 0\<rparr> =
      (\<lparr>tx_db = fst (block_edge (sess_UserID s) U (nowMs e 0) (db b)), tx_stmts = Suc 0\<rparr>,
       Some (OtherError ''Could not block user. User ID may not exist''))"
    using assms(2,5) by (simp add: friendBlock_body_def tx_Exec_def snd_block_edge)
  ultimately show ?thesis
    using assms(1,3,4)
    by (cases "rollback_fails e")
       (simp_all add: friendBlock_def uuid_FromBytes_def db_Begin_def Let_def
          friendBlock_deferred_def tx_Rollback_def warn_more_than_one_def log_def)
qed

theorem friendBlock_no_edge_fails_witness:
  "begin_fails env_ok = None \<and> exec_fails env_ok 0 = None \<and> length uB = 16 \<and>
   uB \<noteq> sess_UserID sessA \<and>
   edge_rows (db (backend_of st_strangers)) (sess_UserID sessA) uB = [] \<and>
   responses (friendBlock env_ok sessA ''b3'' [uB] (backend_of st_strangers)) =
     [ErrorMessageRuntimeException ''b3'' ''Could not block user''] \<and>
   db (final (friendBlock env_ok sessA ''b3'' [uB] (backend_of st_strangers))) = st_strangers \<and>
   rollback_calls (final (friendBlock env_ok sessA ''b3'' [uB] (backend_of st_strangers))) = 1 \<and>
   commit_calls (final (friendBlock env_ok sessA ''b3'' [uB] (backend_of st_strangers))) = 0"
proof -
  have h: "begin_fails env_ok = None" "exec_fails env_ok 0 = None" "length uB = 16"
    "uB \<noteq> sess_UserID sessA"
    "edge_rows (db (backend_of st_strangers)) (sess_UserID sessA) uB = []"
    by (simp_all add: env_ok_def ids_length ids_distinct sessA_def edge_rows_def backend_of_def
          st_strangers_def)
  show ?thesis
    using friendBlock_no_edge_fails [OF h, of "''b3''" "[]"] h
    by (simp add: backend_of_def)
qed

text \<open>
  Claim C7. The caller blocks a user who has already blocked the caller, with a store
  that does not fail: the caller's edge ends in state 3, the rows from the target to the
  caller are the same rows, still in state 3, and the counter table is unchanged.
\<close>

theorem friendBlock_already_blocked_by_peer:
  assumes "no_faults e" and "length U = 16" and "U \<noteq> sess_UserID s"
    and "length (edge_rows (db b) (sess_UserID s) U) = 1"
    and "edge_in_state (db b) U (sess_UserID s) BLOCKED"
  shows "responses (friendBlock e s cid (U # rest) b) = [EnvelopeAck cid] \<and>
         edge_in_state (db (final (friendBlock e s cid (U # rest) b))) (sess_UserID s) U BLOCKED \<and>
         edge_rows (db (final (friendBlock e s cid (U # rest) b))) U (sess_UserID s) =
           edge_rows (db b) U (sess_UserID s) \<and>
         edge_in_state (db (final (friendBlock e s cid (U # rest) b))) U (sess_UserID s) BLOCKED \<and>
         user_edge_metadata (db (final (friendBlock e s cid (U # rest) b))) =
           user_edge_metadata (db b)"
proof -
  have rows: "edge_rows (db b) (sess_UserID s) U \<noteq> []"
    using assms(4) by auto
  have ne: "sess_UserID s \<noteq> U" using assms(3) by simp
  have st: "db (final (friendBlock e s cid (U # rest) b)) =
      block_rows (sess_UserID s) U (nowMs e 0) (nowMs e 1) (db b)"
    and ok: "responses (friendBlock e s cid (U # rest) b) = [EnvelopeAck cid]"
    by (simp_all add: friendBlock_ok [OF assms(1,2,3) rows] log_def)
  show ?thesis
    unfolding st ok using block_rows_blocked_back [OF ne assms(4,5)] assms(5)
    by (simp add: edge_in_state_def)
qed

theorem friendBlock_already_blocked_by_peer_witness:
  "no_faults env_ok \<and> length uB = 16 \<and> uB \<noteq> sess_UserID sessA \<and>
   length (edge_rows (db (backend_of st_blocked_by_peer)) (sess_UserID sessA) uB) = 1 \<and>
   edge_in_state (db (backend_of st_blocked_by_peer)) uB (sess_UserID sessA) BLOCKED \<and>
   responses (friendBlock env_ok sessA ''b2'' [uB] (backend_of st_blocked_by_peer)) =
     [EnvelopeAck ''b2''] \<and>
   edge_in_state (db (final (friendBlock env_ok sessA ''b2'' [uB] (backend_of st_blocked_by_peer))))
     uA uB BLOCKED \<and>
   edge_rows (db (final (friendBlock env_ok sessA ''b2'' [uB] (backend_of st_blocked_by_peer)))) uB uA =
     [edge uB uA 5 3] \<and>
   user_edge_metadata (db (final (friendBlock env_ok sessA ''b2'' [uB] (backend_of st_blocked_by_peer)))) =
     [counter uA 1, counter uB 0, counter uC 0]"
proof -
  have h: "no_faults env_ok" "length uB = 16" "uB \<noteq> sess_UserID sessA"
    by (simp_all add: no_faults_env_ok ids_length ids_distinct sessA_def)
  have pre: "length (edge_rows (db (backend_of st_blocked_by_peer)) (sess_UserID sessA) uB) = 1"
    "edge_in_state (db (backend_of st_blocked_by_peer)) uB (sess_UserID sessA) BLOCKED"
    "edge_rows (db (backend_of st_blocked_by_peer)) uB uA = [edge uB uA 5 3]"
    "user_edge_metadata (db (backend_of st_blocked_by_peer)) =
       [counter uA 1, counter uB 0, counter uC 0]"
    by (simp_all add: edge_in_state_def edge_rows_def backend_of_def st_blocked_by_peer_def
          edge_def edge_from_to_def BLOCKED_def ids_distinct sessA_def)
  show ?thesis
    using friendBlock_already_blocked_by_peer [OF h pre(1,2), of "''b2''" "[]"] h pre
    by (simp add: sessA_def)
qed

lemma friendBlock_deferred_db:
  "db (fst (friendBlock_deferred e cid t err b)) =
     (if err = None \<and> commit_fails e = None then tx_db t else db b)"
  by (simp add: friendBlock_deferred_def tx_Commit_def tx_Rollback_def log_def
      split: option.splits)

lemma friendBlock_deferred_responses:
  "snd (friendBlock_deferred e cid t err b) =
     [if err = None \<and> commit_fails e = None then EnvelopeAck cid
      else ErrorMessageRuntimeException cid ''Could not block user'']"
  by (simp add: friendBlock_deferred_def tx_Commit_def tx_Rollback_def log_def
      split: option.splits)

lemma friendBlock_never_panics: "\<not> panicked (friendBlock e s cid ids b)"
proof (cases ids)
  case Nil
  then show ?thesis by (simp add: friendBlock_def)
next
  case (Cons x rest)
  show ?thesis
  proof (cases "x = [] \<or> length x \<noteq> 16 \<or> x = sess_UserID s")
    case True
    then show ?thesis
      by (auto simp: Cons friendBlock_def uuid_FromBytes_def Let_def)
  next
    case False
    then show ?thesis
      by (cases "begin_fails e")
         (simp_all add: Cons friendBlock_def uuid_FromBytes_def Let_def db_Begin_def
            case_prod_beta)
  qed
qed


subsection \<open>Validation of the targets\<close>

text \<open>
  Claim C8. An add by id, an add by handle, a remove or a block whose first target is the
  caller (its id, a UUID of 16 bytes, or its handle) is rejected by validation: one
  bad-input response, the same tables, no notification, no transaction begun. The
  environment is arbitrary, so the package-level add functions are not reached either.
\<close>

theorem self_target_rejected:
  assumes "length (sess_UserID s) = 16"
  shows "rejected_by_validation b (friendAdd e s cid (FriendsAdd_UserId (sess_UserID s) # rest) b) \<and>
         rejected_by_validation b (friendAdd e s cid (FriendsAdd_Handle (sess_Handle s) # rest) b) \<and>
         rejected_by_validation b (friendRemove e s cid (sess_UserID s # ids) b) \<and>
         rejected_by_validation b (friendBlock e s cid (sess_UserID s # ids) b)"
proof -
  from assms have ne: "sess_UserID s \<noteq> []" by auto
  show ?thesis
    using assms ne
    by (simp add: rejected_by_validation_def friendAdd_def friendAddById_def friendAddByHandle_def
          friendRemove_def friendBlock_def uuid_FromBytes_def warn_more_than_one_def log_def)
qed

theorem self_target_rejected_witness:
  "length (sess_UserID sessA) = 16 \<and>
   responses (friendAdd env_ok sessA ''s1'' [FriendsAdd_UserId uA, FriendsAdd_UserId uB]
     (backend_of st_friends)) = [ErrorMessageBadInput ''s1'' ''Cannot add self''] \<and>
   rejected_by_validation (backend_of st_friends)
     (friendAdd env_ok sessA ''s1'' [FriendsAdd_UserId uA, FriendsAdd_UserId uB]
        (backend_of st_friends)) \<and>
   rejected_by_validation (backend_of st_friends)
     (friendAdd env_ok sessA ''s1'' [FriendsAdd_Handle ''alice'', FriendsAdd_UserId uB]
        (backend_of st_friends)) \<and>
   rejected_by_validation (backend_of st_friends)
     (friendRemove env_ok sessA ''s1'' [uA, uB] (backend_of st_friends)) \<and>
   rejected_by_validation (backend_of st_friends)
     (friendBlock env_ok sessA ''s1'' [uA, uB] (backend_of st_friends))"
proof -
  have h: "length (sess_UserID sessA) = 16"
    by (simp add: sessA_def ids_length)
  have r: "responses (friendAdd env_ok sessA ''s1'' [FriendsAdd_UserId uA, FriendsAdd_UserId uB]
     (backend_of st_friends)) = [ErrorMessageBadInput ''s1'' ''Cannot add self'']"
    by (simp add: friendAdd_def friendAddById_def uuid_FromBytes_def sessA_def uA_def
          warn_more_than_one_def)
  show ?thesis
    using self_target_rejected [OF h, where b = "backend_of st_friends" and e = env_ok
        and cid = "''s1''" and rest = "[FriendsAdd_UserId uB]" and ids = "[uB]"] h r
    by (simp add: sessA_def)
qed

text \<open>
  Claim C10. An add request whose first element carries neither a user id nor a handle:
  the handler returns without sending anything to the session, and the tables, the
  notifications and the count of begun transactions are as before.
\<close>

theorem friendAdd_unset_is_silent:
  "\<not> panicked (friendAdd e s cid (FriendsAdd_unset # rest) b) \<and>
   responses (friendAdd e s cid (FriendsAdd_unset # rest) b) = [] \<and>
   db (final (friendAdd e s cid (FriendsAdd_unset # rest) b)) = db b \<and>
   notified (final (friendAdd e s cid (FriendsAdd_unset # rest) b)) = notified b \<and>
   begin_calls (final (friendAdd e s cid (FriendsAdd_unset # rest) b)) = begin_calls b"
  by (simp add: friendAdd_def warn_more_than_one_def log_def)

text \<open>
  The entries after the first change neither the responses nor the committed tables: they
  only add a warning to the log.
\<close>

lemma friendRemove_first_only:
  "responses (friendRemove e s cid (x # rest) b) = responses (friendRemove e s cid [x] b) \<and>
   db (final (friendRemove e s cid (x # rest) b)) = db (final (friendRemove e s cid [x] b)) \<and>
   panicked (friendRemove e s cid (x # rest) b) = panicked (friendRemove e s cid [x] b)"
proof (cases "x = [] \<or> length x \<noteq> 16 \<or> x = sess_UserID s")
  case True
  then show ?thesis
    by (auto simp: friendRemove_def uuid_FromBytes_def Let_def db_warn_more_than_one log_def)
next
  case False
  show ?thesis
  proof (cases "begin_fails e")
    case (Some err)
    with False show ?thesis
      by (simp add: friendRemove_def uuid_FromBytes_def Let_def db_Begin_def
            db_warn_more_than_one log_def)
  next
    case None
    with False show ?thesis
      by (simp add: friendRemove_def uuid_FromBytes_def Let_def db_Begin_def
            db_warn_more_than_one case_prod_beta friendRemove_deferred_db
            friendRemove_deferred_responses)
  qed
qed

lemma friendBlock_first_only:
  "responses (friendBlock e s cid (x # rest) b) = responses (friendBlock e s cid [x] b) \<and>
   db (final (friendBlock e s cid (x # rest) b)) = db (final (friendBlock e s cid [x] b)) \<and>
   panicked (friendBlock e s cid (x # rest) b) = panicked (friendBlock e s cid [x] b)"
proof (cases "x = [] \<or> length x \<noteq> 16 \<or> x = sess_UserID s")
  case True
  then show ?thesis
    by (auto simp: friendBlock_def uuid_FromBytes_def Let_def db_warn_more_than_one log_def)
next
  case False
  show ?thesis
  proof (cases "begin_fails e")
    case (Some err)
    with False show ?thesis
      by (simp add: friendBlock_def uuid_FromBytes_def Let_def db_Begin_def
            db_warn_more_than_one log_def)
  next
    case None
    with False show ?thesis
      by (simp add: friendBlock_def uuid_FromBytes_def Let_def db_Begin_def
            db_warn_more_than_one case_prod_beta friendBlock_deferred_db
            friendBlock_deferred_responses)
  qed
qed

text \<open>
  Every path of \<^verbatim>\<open>friendRemove\<close> and \<^verbatim>\<open>friendBlock\<close> sends one response, and so does
  every path of \<^verbatim>\<open>friendAdd\<close> but the one on which the first entry has no variant set.
\<close>

lemma friendRemove_one_response: "length (responses (friendRemove e s cid ids b)) = 1"
proof (cases ids)
  case Nil
  then show ?thesis by (simp add: friendRemove_def)
next
  case (Cons x rest)
  show ?thesis
  proof (cases "x = [] \<or> length x \<noteq> 16 \<or> x = sess_UserID s")
    case True
    then show ?thesis
      by (auto simp: Cons friendRemove_def uuid_FromBytes_def Let_def)
  next
    case False
    then show ?thesis
      by (cases "begin_fails e")
         (simp_all add: Cons friendRemove_def uuid_FromBytes_def Let_def db_Begin_def
            case_prod_beta friendRemove_deferred_responses)
  qed
qed

lemma friendBlock_one_response: "length (responses (friendBlock e s cid ids b)) = 1"
proof (cases ids)
  case Nil
  then show ?thesis by (simp add: friendBlock_def)
next
  case (Cons x rest)
  show ?thesis
  proof (cases "x = [] \<or> length x \<noteq> 16 \<or> x = sess_UserID s")
    case True
    then show ?thesis
      by (auto simp: Cons friendBlock_def uuid_FromBytes_def Let_def)
  next
    case False
    then show ?thesis
      by (cases "begin_fails e")
         (simp_all add: Cons friendBlock_def uuid_FromBytes_def Let_def db_Begin_def
            case_prod_beta friendBlock_deferred_responses)
  qed
qed

lemma friendAddById_one_response: "length (responses (friendAddById e s cid i b)) = 1"
  by (simp add: friendAddById_def uuid_FromBytes_def split: prod.splits option.splits)

lemma friendAddByHandle_one_response: "length (responses (friendAddByHandle e s cid h b)) = 1"
  by (simp add: friendAddByHandle_def split: prod.splits option.splits)

lemma friendAdd_one_response:
  "length (responses (friendAdd e s cid friends b)) =
     (case friends of FriendsAdd_unset # rest \<Rightarrow> 0 | _ \<Rightarrow> 1)"
  by (simp add: friendAdd_def friendAddById_one_response friendAddByHandle_one_response
      split: list.splits FriendsAdd_Id.splits)

text \<open>
  Claim C9 says that a request with two entries gets exactly one response. An add request
  whose first entry has neither variant set and whose second entry is Bob's id gets none.
\<close>

theorem friendAdd_unset_first_of_two:
  "\<not> panicked (friendAdd env_ok sessA ''a9'' [FriendsAdd_unset, FriendsAdd_UserId uB]
        (backend_of st_strangers)) \<and>
   responses (friendAdd env_ok sessA ''a9'' [FriendsAdd_unset, FriendsAdd_UserId uB]
        (backend_of st_strangers)) = []"
  by (simp add: friendAdd_def warn_more_than_one_def)


subsection \<open>Importing Facebook friends\<close>

lemma addFacebookFriends_ok:
  assumes "no_faults e" and "GetFacebookFriends e accessToken = Inr fbFriends"
    and "fbFriends \<noteq> []" and "select_ids_by_facebook fbFriends (db b) = matched"
    and "matched \<noteq> []"
  shows "db (addFacebookFriends e userID handle fbid accessToken b) =
           fst (set_count (int (length matched)) (nowMs e 0) userID
             (fst (increment_counts (nowMs e 0) matched
               (fst (insert_edges userID (nowMs e 0) matched (db b))))))"
proof -
  from assms(1) have f: "begin_fails e = None" "exec_fails e = (\<lambda>k. None)" "scan_fails e = None"
    "rows_err e = None" "commit_fails e = None"
    by (simp_all add: no_faults_def)
  show ?thesis
    using assms(2-5)
    by (cases "marshal_fails e"; cases "notify_fails e")
       (simp_all add: addFacebookFriends_def addFacebookFriends_body_def
          addFacebookFriends_deferred_def db_Begin_def tx_Query_def tx_Exec_def tx_Commit_def
          scan_all_def delivered_def f Let_def log_def)
qed

lemma addFacebookFriends_counts:
  assumes "no_faults e" and "GetFacebookFriends e accessToken = Inr fbFriends"
    and "fbFriends \<noteq> []" and "select_ids_by_facebook fbFriends (db b) = matched"
    and "matched \<noteq> []"
  shows "counts (db (addFacebookFriends e userID handle fbid accessToken b)) u =
           (if u = userID then map (\<lambda>c. int (length matched)) (counts (db b) u)
            else if u \<in> set matched then map (\<lambda>c. c + 1) (counts (db b) u)
            else counts (db b) u)"
  by (simp add: addFacebookFriends_ok [OF assms] counts_set_count counts_increment_counts
        counts_insert_edges comp_def)

text \<open>
  Claim C1 says that an import with \<open>n\<close> matches raises the caller's counter by \<open>n\<close>.
  Alice, with one friend and a counter of 1, imports a contact list that matches Bob
  alone; the transaction commits. The edge to Bob is inserted beside the edge to Carol and
  Bob's counter goes from 0 to 1, but Alice's counter is set to the number of matches: it
  is 1 again, not 2.
\<close>

theorem addFacebookFriends_overwrites_count:
  "counts st_before_import uA = [1] \<and>
   counts st_before_import uB = [0] \<and>
   select_ids_by_facebook [''fb_b'', ''fb_z''] st_before_import = [uB] \<and>
   commit_calls (addFacebookFriends env_ok uA ''alice'' ''fb_a'' ''token''
     (backend_of st_before_import)) = 1 \<and>
   edge_rows (db (addFacebookFriends env_ok uA ''alice'' ''fb_a'' ''token''
     (backend_of st_before_import))) uA uB = [edge uA uB 9 0] \<and>
   edge_rows (db (addFacebookFriends env_ok uA ''alice'' ''fb_a'' ''token''
     (backend_of st_before_import))) uA uC = [edge uA uC 5 0] \<and>
   counts (db (addFacebookFriends env_ok uA ''alice'' ''fb_a'' ''token''
     (backend_of st_before_import))) uB = [1] \<and>
   counts (db (addFacebookFriends env_ok uA ''alice'' ''fb_a'' ''token''
     (backend_of st_before_import))) uA = [1]"
  by (simp add: addFacebookFriends_def addFacebookFriends_body_def addFacebookFriends_deferred_def
        env_ok_def uA_def uB_def uC_def backend_of_def st_before_import_def three_users_def
        profile_def db_Begin_def tx_Query_def tx_Exec_def tx_Commit_def scan_all_def delivered_def log_def
        select_ids_by_facebook_def facebook_id_in_def insert_edges_def mirrored_rows_def
        increment_counts_def set_count_def edge_def counter_def counts_def edge_rows_def
        edge_from_to_def join_notifications_def Let_def)

subsection \<open>Listing friends\<close>











lemma scan_Friend_record: "scan_Friend u r = friend_record u r"
  by (simp add: scan_Friend_def friend_record_def String_of_def Int64_of_def)

lemma scan_rows_records:
  "map (\<lambda>(u, r). scan_Friend u r) rows = map (\<lambda>(u, r). friend_record u r) rows"
  by (simp add: scan_Friend_record)


lemma getFriends_iteration_error:
  assumes "query_fails e = None" and "scan_fails e = None" and "rows_err e = Some err"
  shows "getFriends e flt userID st =
           Inr (map (\<lambda>(u, r). friend_record u r)
                  (take (rows_seen e) (row_order e (joined_rows flt userID st))))"
  using assms
  by (simp add: getFriends_def select_users_edges_def delivered_def Let_def scan_rows_records)



text \<open>
  The path that the theorem leaves out: when the iteration fails after the first row,
  Alice gets a friends envelope with Carol alone, and nothing is logged.
\<close>

lemma friendsList_truncated_on_iteration_error:
  "friend_ids (listed (friendsList (env_iteration_fails 1) sessA ''l2'' (backend_of st_two_friends))) =
     [uC] \<and>
   logs (final (friendsList (env_iteration_fails 1) sessA ''l2'' (backend_of st_two_friends))) = []"
  by (simp add: friendsList_def getFriends_def select_users_edges_def delivered_def
        joined_rows_def friendsList_filter_def listed_def friend_ids_def env_iteration_fails_def
        env_ok_def sessA_def backend_of_def st_two_friends_def three_users_def profile_def
        edge_def scan_Friend_def uA_def uB_def uC_def Let_def)

end
